theory Spec2Isabelle
  imports Main "HOL-Library.Word" "HOL-Library.AList" "HOL-Library.Sublist"
begin

unbundle bit_operations_syntax

section \<open>The desktop integration layer of the mail client (DesktopUtils.ts)\<close>

text \<open>
  The class \<^verbatim>\<open>DesktopUtils\<close> talks to three collaborators handed to its constructor:
  the file system (\<^verbatim>\<open>fs\<close>), the Electron application object (\<^verbatim>\<open>electron\<close>) and the
  random source (\<^verbatim>\<open>cryptoFunctions\<close>). The model makes each of them explicit:
  \<^item> what the collaborators answer is a field of the record \<open>env\<close>;
  \<^item> what the methods change is the record \<open>world\<close>: the files on disk, the operations
    the operating system currently refuses, and the trace of every call made so far;
  \<^item> a method that returns or throws has a result \<open>error + 'a\<close>; an asynchronous method
    has a result \<open>'a promise\<close>, which is resolved, rejected, or never settled.
\<close>

subsection \<open>Paths, files and errors\<close>

text \<open>
  A path is the list of its components, so that \<^verbatim>\<open>path.join(a, b)\<close> is \<open>a @ [b]\<close>
  whatever the separator of the platform is. The empty path is the root.
\<close>

type_synonym path = "string list"

text \<open>
  What is at a path: a regular file with its content and mode, or a directory with its
  mode. The disk is the list of the paths that exist, each with what is there.
\<close>

datatype node = File string nat | Dir nat

type_synonym fs = "(path \<times> node) list"

text \<open>
  A JavaScript error object. \<open>SystemError c\<close> is an error of the file system with
  \<^verbatim>\<open>e.code === c\<close>; the other two are \<^verbatim>\<open>new Error(m)\<close> and \<^verbatim>\<open>new ProgrammingError(m)\<close>,
  which carry their message and have no code.
\<close>

datatype error = Error string | ProgrammingError string | SystemError string

fun code :: "error \<Rightarrow> string option" where
  "code (SystemError c) = Some c"
| "code (Error m) = None"
| "code (ProgrammingError m) = None"

fun message :: "error \<Rightarrow> string" where
  "message (Error m) = m"
| "message (ProgrammingError m) = m"
| "message (SystemError c) = c"

text \<open>How a promise ends: resolved, rejected, or never settled.\<close>

datatype 'a promise = Resolved 'a | Rejected error | Pending

text \<open>The kinds of calls into the file system that the class makes.\<close>

datatype fsop = OpRead | OpWrite | OpMkdir | OpReaddir | OpRm | OpUnlink

text \<open>An argument of a spawned process: a literal word or a path.\<close>

datatype arg = Lit string | PathArg path

text \<open>
  Every call that leaves the class is recorded as an event, with its arguments:
  the calls into the file system, \<^verbatim>\<open>app.requestSingleInstanceLock()\<close> with its answer,
  \<^verbatim>\<open>app.quit()\<close>, \<^verbatim>\<open>delay(ms)\<close>, \<^verbatim>\<open>randomBytes(n)\<close>, \<^verbatim>\<open>spawn\<close>, the two calls for the default
  protocol client, \<^verbatim>\<open>shell.openExternal\<close>, \<^verbatim>\<open>log.debug\<close> and \<^verbatim>\<open>console.error\<close>.
\<close>

datatype event =
    ReadFile path
  | WriteFile path string nat
  | Mkdir path nat
  | Readdir path
  | Rm path
  | Unlink path
  | RequestSingleInstanceLock bool
  | Quit
  | Delay nat
  | RandomBytes nat
  | Spawn string "arg list"
  | SetAsDefaultProtocolClient string
  | RemoveAsDefaultProtocolClient string
  | OpenExternal string
  | LogDebug string
  | ConsoleError "string list"

text \<open>
  How a child process ends: with an exit code, killed by a signal, or not at all (it
  hangs, or it could not be started, so that no \<^verbatim>\<open>exit\<close> event is ever emitted).
\<close>

datatype proc_outcome = Exited int | Signalled string | NeverExits

text \<open>
  The enumeration \<^verbatim>\<open>RegistryRoot\<close> of the module \<^verbatim>\<open>reg-templater\<close>, which is not part of the
  sources at hand; DesktopUtils.ts only passes \<^verbatim>\<open>CURRENT_USER\<close> on.
\<close>

datatype RegistryRoot = CURRENT_USER | LOCAL_MACHINE

text \<open>
  The state that the methods change: the disk; the failures of the operating system,
  where \<open>faults w opn p = Some c\<close> says that the operation \<open>opn\<close> on the path \<open>p\<close> fails
  with code \<open>c\<close>; and the events so far, the oldest first.
\<close>

record world =
  files :: fs
  faults :: "fsop \<Rightarrow> path \<Rightarrow> string option"
  trace :: "event list"

text \<open>
  What the surroundings of the class answer: \<^verbatim>\<open>process.platform\<close>, \<^verbatim>\<open>process.execPath\<close>,
  \<^verbatim>\<open>app.getVersion()\<close>, \<^verbatim>\<open>app.getName()\<close>, \<^verbatim>\<open>app.getPath("temp")\<close>; the answer to the n-th
  lock request of this process; byte \<open>i\<close> of the k-th call of \<^verbatim>\<open>randomBytes\<close>; what other
  processes do to the disk while this one sleeps; the answers of
  \<^verbatim>\<open>app.setAsDefaultProtocolClient\<close> and \<^verbatim>\<open>app.removeAsDefaultProtocolClient\<close>; how the
  promise of \<^verbatim>\<open>shell.openExternal\<close> ends; how \<^verbatim>\<open>reg.exe\<close> ends; and the two script builders
  of the module \<^verbatim>\<open>reg-templater\<close>, whose output is an opaque string here.
\<close>

record env =
  platform :: string
  execPath :: path
  appVersion :: string
  appName :: string
  tempDir :: path
  lockGranted :: "nat \<Rightarrow> bool"
  entropy :: "nat \<Rightarrow> nat \<Rightarrow> 8 word"
  duringDelay :: "world \<Rightarrow> world"
  setAsDefaultResult :: bool
  removeAsDefaultResult :: bool
  openExternalResult :: "unit promise"
  helperExit :: proc_outcome
  makeRegisterKeysScript :: "RegistryRoot \<Rightarrow> path \<Rightarrow> path \<Rightarrow> path \<Rightarrow> path \<Rightarrow> string"
  makeUnregisterKeysScript :: "RegistryRoot \<Rightarrow> string"

text \<open>The one field of the class that differs between instances.\<close>

record DesktopUtils =
  randomDirectoryName :: string

subsection \<open>The file system\<close>

text \<open>
  The node at a path is \<open>map_of t p\<close>. The root is a directory that always exists and
  is not listed.
\<close>

definition is_dir :: "fs \<Rightarrow> path \<Rightarrow> bool" where
  "is_dir t p = (case map_of t p of Some (Dir m) \<Rightarrow> True | Some (File c m) \<Rightarrow> False | None \<Rightarrow> p = [])"

definition is_file :: "fs \<Rightarrow> path \<Rightarrow> bool" where
  "is_file t p = (case map_of t p of Some (File c m) \<Rightarrow> True | Some (Dir m) \<Rightarrow> False | None \<Rightarrow> False)"

definition exists_path :: "fs \<Rightarrow> path \<Rightarrow> bool" where
  "exists_path t p = (p = [] \<or> map_of t p \<noteq> None)"

text \<open>Every directory on the way down to \<open>p\<close>, and \<open>p\<close> itself, exists as a directory.\<close>

definition dirs_exist :: "fs \<Rightarrow> path \<Rightarrow> bool" where
  "dirs_exist t p = list_all (\<lambda>k. is_dir t (take (Suc k) p)) [0..<length p]"

text \<open>\<^verbatim>\<open>readFile\<close>: the content of a regular file.\<close>

definition fs_read :: "path \<Rightarrow> fs \<Rightarrow> error + string \<times> fs" where
  "fs_read p t =
     (case map_of t p of
        Some (File c m) \<Rightarrow> Inr (c, t)
      | Some (Dir m) \<Rightarrow> Inl (SystemError ''EISDIR'')
      | None \<Rightarrow> Inl (SystemError (if p = [] then ''EISDIR'' else ''ENOENT'')))"

text \<open>
  \<^verbatim>\<open>writeFile\<close> opens with flag \<^verbatim>\<open>w\<close>: an existing file is truncated and keeps its
  mode, a new one is created with the mode given, in a directory that exists.
\<close>

definition fs_write :: "path \<Rightarrow> string \<Rightarrow> nat \<Rightarrow> fs \<Rightarrow> error + unit \<times> fs" where
  "fs_write p c mode t =
     (case map_of t p of
        Some (File c0 m) \<Rightarrow> Inr ((), AList.update p (File c m) t)
      | Some (Dir m) \<Rightarrow> Inl (SystemError ''EISDIR'')
      | None \<Rightarrow>
          if p = [] then Inl (SystemError ''EISDIR'')
          else if is_dir t (butlast p) then Inr ((), AList.update p (File c mode) t)
          else Inl (SystemError ''ENOENT''))"

text \<open>
  \<^verbatim>\<open>mkdir\<close> with \<^verbatim>\<open>recursive: true\<close>: walks down from \<open>pre\<close>, creates every missing
  directory with the mode given, and leaves the directories that exist as they are.
\<close>

fun mkdirs :: "path \<Rightarrow> string list \<Rightarrow> nat \<Rightarrow> fs \<Rightarrow> error + fs" where
  "mkdirs pre [] mode t = Inr t"
| "mkdirs pre (n # ns) mode t =
     (case map_of t (pre @ [n]) of
        Some (Dir m) \<Rightarrow> mkdirs (pre @ [n]) ns mode t
      | Some (File c m) \<Rightarrow> Inl (SystemError (if ns = [] then ''EEXIST'' else ''ENOTDIR''))
      | None \<Rightarrow> mkdirs (pre @ [n]) ns mode (AList.update (pre @ [n]) (Dir mode) t))"

definition fs_mkdir :: "path \<Rightarrow> nat \<Rightarrow> fs \<Rightarrow> error + unit \<times> fs" where
  "fs_mkdir p mode t = (case mkdirs [] p mode t of Inl e \<Rightarrow> Inl e | Inr t' \<Rightarrow> Inr ((), t'))"

text \<open>\<^verbatim>\<open>readdir\<close>: the names of the entries directly under a directory.\<close>

definition children :: "fs \<Rightarrow> path \<Rightarrow> string list" where
  "children t d = map (\<lambda>(q, n). last q) (filter (\<lambda>(q, n). q \<noteq> [] \<and> butlast q = d) t)"

definition fs_readdir :: "path \<Rightarrow> fs \<Rightarrow> error + string list \<times> fs" where
  "fs_readdir d t =
     (if is_dir t d then Inr (children t d, t)
      else if is_file t d then Inl (SystemError ''ENOTDIR'')
      else Inl (SystemError ''ENOENT''))"

text \<open>\<^verbatim>\<open>rm\<close> with \<^verbatim>\<open>recursive: true\<close> and no \<^verbatim>\<open>force\<close>: the entry and all below it.\<close>

definition fs_rm :: "path \<Rightarrow> fs \<Rightarrow> error + unit \<times> fs" where
  "fs_rm p t =
     (if map_of t p = None then Inl (SystemError ''ENOENT'')
      else Inr ((), filter (\<lambda>(q, n). \<not> prefix p q) t))"

text \<open>\<^verbatim>\<open>unlink\<close>: removes a regular file.\<close>

definition fs_unlink :: "path \<Rightarrow> fs \<Rightarrow> error + unit \<times> fs" where
  "fs_unlink p t =
     (case map_of t p of
        Some (File c m) \<Rightarrow> Inr ((), AList.delete p t)
      | Some (Dir m) \<Rightarrow> Inl (SystemError ''EISDIR'')
      | None \<Rightarrow> Inl (SystemError ''ENOENT''))"

text \<open>
  A call into the file system: the call is recorded; it fails with the code the
  operating system currently gives for this operation on this path, if any, and
  otherwise does what the operation does on the files. A failed call changes no file.
\<close>

definition fs_call ::
  "fsop \<Rightarrow> path \<Rightarrow> event \<Rightarrow> (fs \<Rightarrow> error + 'a \<times> fs) \<Rightarrow> world \<Rightarrow> (error + 'a) \<times> world" where
  "fs_call opn p ev sem w =
     (let w1 = w\<lparr>trace := trace w @ [ev]\<rparr> in
      case faults w opn p of
        Some c \<Rightarrow> (Inl (SystemError c), w1)
      | None \<Rightarrow>
          (case sem (files w) of
             Inl e \<Rightarrow> (Inl e, w1)
           | Inr (r, t') \<Rightarrow> (Inr r, w1\<lparr>files := t'\<rparr>)))"

text \<open>
  The calls of the module \<^verbatim>\<open>fs\<close> that the class makes: \<^verbatim>\<open>fs.promises.readFile\<close>,
  \<^verbatim>\<open>fs.promises.writeFile\<close> and \<^verbatim>\<open>fs.promises.mkdir\<close>, whose promise is rejected with the
  error, and \<^verbatim>\<open>readdirSync\<close>, \<^verbatim>\<open>rmSync\<close>, \<^verbatim>\<open>unlinkSync\<close> and \<^verbatim>\<open>mkdirSync\<close>, which throw it.
\<close>

definition readFile :: "path \<Rightarrow> world \<Rightarrow> (error + string) \<times> world" where
  "readFile p = fs_call OpRead p (ReadFile p) (fs_read p)"

definition writeFile :: "path \<Rightarrow> string \<Rightarrow> nat \<Rightarrow> world \<Rightarrow> (error + unit) \<times> world" where
  "writeFile p c mode = fs_call OpWrite p (WriteFile p c mode) (fs_write p c mode)"

definition mkdir :: "path \<Rightarrow> nat \<Rightarrow> world \<Rightarrow> (error + unit) \<times> world" where
  "mkdir p mode = fs_call OpMkdir p (Mkdir p mode) (fs_mkdir p mode)"

definition readdirSync :: "path \<Rightarrow> world \<Rightarrow> (error + string list) \<times> world" where
  "readdirSync d = fs_call OpReaddir d (Readdir d) (fs_readdir d)"

definition rmSync :: "path \<Rightarrow> world \<Rightarrow> (error + unit) \<times> world" where
  "rmSync p = fs_call OpRm p (Rm p) (fs_rm p)"

definition unlinkSync :: "path \<Rightarrow> world \<Rightarrow> (error + unit) \<times> world" where
  "unlinkSync p = fs_call OpUnlink p (Unlink p) (fs_unlink p)"

definition mkdirSync :: "path \<Rightarrow> nat \<Rightarrow> world \<Rightarrow> (error + unit) \<times> world" where
  "mkdirSync p mode = fs_call OpMkdir p (Mkdir p mode) (fs_mkdir p mode)"

subsection \<open>The application object, the random source and the helper process\<close>

definition record_event :: "event \<Rightarrow> world \<Rightarrow> world" where
  "record_event ev w = w\<lparr>trace := trace w @ [ev]\<rparr>"

fun is_lock_request :: "event \<Rightarrow> bool" where
  "is_lock_request (RequestSingleInstanceLock b) = True"
| "is_lock_request ev = False"

fun is_random_call :: "event \<Rightarrow> bool" where
  "is_random_call (RandomBytes n) = True"
| "is_random_call ev = False"

text \<open>
  \<^verbatim>\<open>app.requestSingleInstanceLock()\<close>: the answer to the n-th request of this process is
  \<open>lockGranted env n\<close>; the request and its answer are recorded.
\<close>

definition requestSingleInstanceLock :: "env \<Rightarrow> world \<Rightarrow> bool \<times> world" where
  "requestSingleInstanceLock env w =
     (let granted = lockGranted env (length (filter is_lock_request (trace w)))
      in (granted, record_event (RequestSingleInstanceLock granted) w))"

definition quit :: "world \<Rightarrow> world" where
  "quit w = record_event Quit w"

text \<open>
  \<^verbatim>\<open>delay(ms)\<close>: while this process sleeps, the other processes change the files and
  what the operating system refuses as \<open>duringDelay env\<close> says; they cannot change
  what this process has done so far.
\<close>

definition delay :: "env \<Rightarrow> nat \<Rightarrow> world \<Rightarrow> world" where
  "delay env ms w =
     \<lparr>files = files (duringDelay env w), faults = faults (duringDelay env w),
      trace = trace w @ [Delay ms]\<rparr>"

text \<open>
  \<^verbatim>\<open>cryptoFunctions.randomBytes(n)\<close>: the k-th call of this process yields the \<open>n\<close> bytes
  \<open>entropy env k 0\<close>, ..., \<open>entropy env k (n - 1)\<close>.
\<close>

definition randomBytes :: "env \<Rightarrow> nat \<Rightarrow> world \<Rightarrow> 8 word list \<times> world" where
  "randomBytes env n w =
     (map (entropy env (length (filter is_random_call (trace w)))) [0..<n],
      record_event (RandomBytes n) w)"

definition setAsDefaultProtocolClient :: "env \<Rightarrow> string \<Rightarrow> world \<Rightarrow> bool \<times> world" where
  "setAsDefaultProtocolClient env scheme w =
     (setAsDefaultResult env, record_event (SetAsDefaultProtocolClient scheme) w)"

definition removeAsDefaultProtocolClient :: "env \<Rightarrow> string \<Rightarrow> world \<Rightarrow> bool \<times> world" where
  "removeAsDefaultProtocolClient env scheme w =
     (removeAsDefaultResult env, record_event (RemoveAsDefaultProtocolClient scheme) w)"

definition openExternal :: "env \<Rightarrow> string \<Rightarrow> world \<Rightarrow> unit promise \<times> world" where
  "openExternal env url w = (openExternalResult env, record_event (OpenExternal url) w)"

definition spawn :: "string \<Rightarrow> arg list \<Rightarrow> world \<Rightarrow> world" where
  "spawn cmd args w = record_event (Spawn cmd args) w"

text \<open>The arguments \<^verbatim>\<open>(code, signal)\<close> of the \<^verbatim>\<open>exit\<close> event of a child process.\<close>

fun exit_code :: "proc_outcome \<Rightarrow> int option" where
  "exit_code (Exited c) = Some c"
| "exit_code (Signalled s) = None"
| "exit_code NeverExits = None"

subsection \<open>Encodings of byte arrays\<close>

text \<open>
  DesktopUtils.ts imports three encoders from the package \<^verbatim>\<open>@tutao/tutanota-utils\<close> and
  \<^verbatim>\<open>swapFilename\<close> from \<^verbatim>\<open>PathUtils\<close>; none of the four is part of the sources at hand.
\<close>

text \<open>
  Modelled from the spec: \<^verbatim>\<open>uint8ArrayToBase64\<close> of \<^verbatim>\<open>@tutao/tutanota-utils\<close> is missing.
  The spec calls the name of the scratch directory "URL-safe-base64 encoded"; this is
  its first half, base64 with the standard alphabet and \<^verbatim>\<open>=\<close> as padding. \<open>b64\<close> reads the
  alphabet at an index below 64.
\<close>

definition base64Alphabet :: string where
  "base64Alphabet = ''ABCDEFGHIJKLMNOPQRSTUVWXYZabcdefghijklmnopqrstuvwxyz0123456789+/''"

definition b64 :: "nat \<Rightarrow> char" where
  "b64 i = base64Alphabet ! (i mod 64)"

fun uint8ArrayToBase64 :: "8 word list \<Rightarrow> string" where
  "uint8ArrayToBase64 [] = []"
| "uint8ArrayToBase64 [a] =
     [b64 (unat a div 4), b64 (unat a mod 4 * 16), CHR ''='', CHR ''='']"
| "uint8ArrayToBase64 [a, b] =
     [b64 (unat a div 4), b64 (unat a mod 4 * 16 + unat b div 16),
      b64 (unat b mod 16 * 4), CHR ''='']"
| "uint8ArrayToBase64 (a # b # c # rest) =
     [b64 (unat a div 4), b64 (unat a mod 4 * 16 + unat b div 16),
      b64 (unat b mod 16 * 4 + unat c div 64), b64 (unat c mod 64)]
     @ uint8ArrayToBase64 rest"

text \<open>
  Modelled from the spec: \<^verbatim>\<open>base64ToBase64Url\<close> of \<^verbatim>\<open>@tutao/tutanota-utils\<close> is missing.
  It is the second half of "URL-safe-base64 encoded": \<^verbatim>\<open>+\<close> becomes \<^verbatim>\<open>-\<close>, \<^verbatim>\<open>/\<close> becomes
  \<^verbatim>\<open>_\<close>, and the padding is dropped, which leaves the characters of \<open>base64UrlAlphabet\<close>.
\<close>

definition base64ToBase64Url :: "string \<Rightarrow> string" where
  "base64ToBase64Url s =
     filter (\<lambda>c. c \<noteq> CHR ''='')
       (map (\<lambda>c. if c = CHR ''+'' then CHR ''-'' else if c = CHR ''/'' then CHR ''_'' else c) s)"

definition base64UrlAlphabet :: string where
  "base64UrlAlphabet = ''ABCDEFGHIJKLMNOPQRSTUVWXYZabcdefghijklmnopqrstuvwxyz0123456789-_''"

text \<open>
  Modelled from the spec: \<^verbatim>\<open>uint8ArrayToHex\<close> of \<^verbatim>\<open>@tutao/tutanota-utils\<close> is missing. The
  spec names the staged file "12 random bytes, hex-encoded name": two lower-case
  hexadecimal digits for each byte, the high half first.
\<close>

definition hexDigits :: string where
  "hexDigits = ''0123456789abcdef''"

definition uint8ArrayToHex :: "8 word list \<Rightarrow> string" where
  "uint8ArrayToHex bytes =
     concat (map (\<lambda>v. [hexDigits ! (unat v div 16), hexDigits ! (unat v mod 16)]) bytes)"

text \<open>
  Modelled from the spec: \<^verbatim>\<open>swapFilename\<close> of \<^verbatim>\<open>PathUtils\<close> is missing. The spec describes
  it as "swapping the executable's filename while keeping its directory".
\<close>

definition swapFilename :: "path \<Rightarrow> string \<Rightarrow> path" where
  "swapFilename p name = butlast p @ [name]"

subsection \<open>The class DesktopUtils\<close>

definition topLevelTempDir :: string where
  "topLevelTempDir = ''tutanota''"

text \<open>The constructor draws 16 random bytes and keeps their encoding as a field.\<close>

definition new_DesktopUtils :: "env \<Rightarrow> world \<Rightarrow> DesktopUtils \<times> world" where
  "new_DesktopUtils env w =
     (let (bytes, w1) = randomBytes env 16 w
      in (\<lparr>randomDirectoryName = base64ToBase64Url (uint8ArrayToBase64 bytes)\<rparr>, w1))"

definition getLockFilePath :: "env \<Rightarrow> path" where
  "getLockFilePath env = tempDir env @ [''tutanota_desktop_lockfile'']"

text \<open>The mode of a file that \<^verbatim>\<open>writeFile\<close> creates when none is given: \<^verbatim>\<open>0o666\<close>.\<close>

definition defaultFileMode :: nat where
  "defaultFileMode = 438"

text \<open>The mode of a directory that \<^verbatim>\<open>mkdir\<close> creates when none is given: \<^verbatim>\<open>0o777\<close>.\<close>

definition defaultDirMode :: nat where
  "defaultDirMode = 511"

text \<open>
  \<^verbatim>\<open>singleInstanceLockOverridden\<close>: read the lock file; then write the own version and
  answer whether what was read differs from it; any rejection becomes \<^verbatim>\<open>false\<close>.
\<close>

definition singleInstanceLockOverridden :: "env \<Rightarrow> world \<Rightarrow> bool promise \<times> world" where
  "singleInstanceLockOverridden env w =
     (let lockfilePath = getLockFilePath env in
      case readFile lockfilePath w of
        (Inl e, w1) \<Rightarrow> (Resolved False, w1)
      | (Inr version, w1) \<Rightarrow>
          (case writeFile lockfilePath (appVersion env) defaultFileMode w1 of
             (Inl e, w2) \<Rightarrow> (Resolved False, w2)
           | (Inr u, w2) \<Rightarrow> (Resolved (version \<noteq> appVersion env), w2)))"

text \<open>
  \<^verbatim>\<open>makeSingleInstance\<close>: write the own version (a rejection is caught by \<^verbatim>\<open>noOp\<close>),
  request the lock; when it is refused, sleep, run the override check, and request
  the lock again or quit.
\<close>

definition makeSingleInstance :: "env \<Rightarrow> world \<Rightarrow> bool promise \<times> world" where
  "makeSingleInstance env w =
     (let lockfilePath = getLockFilePath env;
          (r0, w1) = writeFile lockfilePath (appVersion env) defaultFileMode w;
          (granted, w2) = requestSingleInstanceLock env w1
      in if granted then (Resolved True, w2)
         else
           (let w3 = delay env 1500 w2 in
            case singleInstanceLockOverridden env w3 of
              (Resolved canStay, w4) \<Rightarrow>
                if canStay then
                  (let (again, w5) = requestSingleInstanceLock env w4 in (Resolved canStay, w5))
                else (Resolved canStay, quit w4)
            | (Rejected e, w4) \<Rightarrow> (Rejected e, w4)
            | (Pending, w4) \<Rightarrow> (Pending, w4)))"

text \<open>
  \<^verbatim>\<open>getTutanotaTempPath\<close>: the directory \<^verbatim>\<open>temp/tutanota/randomDirectoryName\<close>, created
  with mode \<^verbatim>\<open>0o700\<close> on the way.
\<close>

definition getTutanotaTempPath :: "env \<Rightarrow> DesktopUtils \<Rightarrow> world \<Rightarrow> (error + path) \<times> world" where
  "getTutanotaTempPath env this w =
     (let directory = tempDir env @ [topLevelTempDir, randomDirectoryName this] in
      case mkdirSync directory 448 w of
        (Inl e, w1) \<Rightarrow> (Inl e, w1)
      | (Inr u, w1) \<Rightarrow> (Inr directory, w1))"

text \<open>
  \<^verbatim>\<open>_writeToDisk\<close>: a file with a random name and mode \<^verbatim>\<open>0o400\<close> in the directory
  \<^verbatim>\<open>reg\<close> of the scratch directory.
\<close>

definition writeToDisk :: "env \<Rightarrow> DesktopUtils \<Rightarrow> string \<Rightarrow> world \<Rightarrow> path promise \<times> world" where
  "writeToDisk env this contents w =
     (let (bytes, w1) = randomBytes env 12 w;
          filename = uint8ArrayToHex bytes
      in case getTutanotaTempPath env this w1 of
           (Inl e, w2) \<Rightarrow> (Rejected e, w2)
         | (Inr dir, w2) \<Rightarrow>
             (let tmpPath = dir @ [''reg''] in
              case mkdir tmpPath defaultDirMode w2 of
                (Inl e, w3) \<Rightarrow> (Rejected e, w3)
              | (Inr u, w3) \<Rightarrow>
                  (let filePath = tmpPath @ [filename] in
                   case writeFile filePath contents 256 w3 of
                     (Inl e, w4) \<Rightarrow> (Rejected e, w4)
                   | (Inr u', w4) \<Rightarrow> (Resolved filePath, w4))))"

text \<open>
  \<^verbatim>\<open>_executeRegistryScript\<close>: stage the script, spawn \<^verbatim>\<open>reg.exe import file\<close>; the
  listener of the \<^verbatim>\<open>exit\<close> event unlinks the file and then settles the promise. When
  the helper never exits the listener never runs; when \<^verbatim>\<open>unlinkSync\<close> throws inside
  the listener the promise is not settled either.
\<close>

definition executeRegistryScript :: "env \<Rightarrow> DesktopUtils \<Rightarrow> string \<Rightarrow> world \<Rightarrow> unit promise \<times> world" where
  "executeRegistryScript env this script w =
     (case writeToDisk env this script w of
        (Rejected e, w1) \<Rightarrow> (Rejected e, w1)
      | (Pending, w1) \<Rightarrow> (Pending, w1)
      | (Resolved file, w1) \<Rightarrow>
          (let w2 = spawn ''reg.exe'' [Lit ''import'', PathArg file] w1 in
           if helperExit env = NeverExits then (Pending, w2)
           else
             (case unlinkSync file w2 of
                (Inl e, w3) \<Rightarrow> (Pending, w3)
              | (Inr u, w3) \<Rightarrow>
                  if exit_code (helperExit env) = Some 0 then (Resolved (), w3)
                  else (Rejected (Error ''couldn't execute registry script''), w3))))"

text \<open>
  \<^verbatim>\<open>_openDefaultAppsSettings\<close>: a rejection of \<^verbatim>\<open>shell.openExternal\<close> is caught and its
  message written with \<^verbatim>\<open>console.error\<close>.
\<close>

definition openDefaultAppsSettings :: "env \<Rightarrow> world \<Rightarrow> unit promise \<times> world" where
  "openDefaultAppsSettings env w =
     (case openExternal env ''ms-settings:defaultapps'' w of
        (Resolved u, w1) \<Rightarrow> (Resolved (), w1)
      | (Rejected e, w1) \<Rightarrow>
          (Resolved (),
           record_event (ConsoleError [''failed to open default apps settings page:'', message e]) w1)
      | (Pending, w1) \<Rightarrow> (Pending, w1))"

definition doRegisterMailtoOnWin32WithCurrentUser ::
  "env \<Rightarrow> DesktopUtils \<Rightarrow> world \<Rightarrow> unit promise \<times> world" where
  "doRegisterMailtoOnWin32WithCurrentUser env this w =
     (if platform env \<noteq> ''win32'' then (Rejected (ProgrammingError ''Not win32''), w)
      else
        (let dllPath = swapFilename (execPath env) ''mapirs.dll'';
             appData = [''%USERPROFILE%'', ''AppData''];
             logPath = appData @ [''Roaming'', appName env, ''logs''];
             tmpPath = appData @ [''Local'', ''Temp'', topLevelTempDir, ''attach''];
             tmpRegScript = makeRegisterKeysScript env CURRENT_USER (execPath env) dllPath logPath tmpPath
         in case executeRegistryScript env this tmpRegScript w of
              (Rejected e, w1) \<Rightarrow> (Rejected e, w1)
            | (Pending, w1) \<Rightarrow> (Pending, w1)
            | (Resolved u, w1) \<Rightarrow>
                (let (didRegister, w2) = setAsDefaultProtocolClient env ''mailto'' w1
                 in openDefaultAppsSettings env w2)))"

definition doUnregisterMailtoOnWin32WithCurrentUser ::
  "env \<Rightarrow> DesktopUtils \<Rightarrow> world \<Rightarrow> unit promise \<times> world" where
  "doUnregisterMailtoOnWin32WithCurrentUser env this w =
     (if platform env \<noteq> ''win32'' then (Rejected (ProgrammingError ''Not win32''), w)
      else
        (let (didUnregister, w1) = removeAsDefaultProtocolClient env ''mailto'' w;
             tmpRegScript = makeUnregisterKeysScript env CURRENT_USER
         in case executeRegistryScript env this tmpRegScript w1 of
              (Rejected e, w2) \<Rightarrow> (Rejected e, w2)
            | (Pending, w2) \<Rightarrow> (Pending, w2)
            | (Resolved u, w2) \<Rightarrow> openDefaultAppsSettings env w2))"

text \<open>The \<^verbatim>\<open>switch\<close> on \<^verbatim>\<open>process.platform\<close>, its cases in the order of the source.\<close>

definition registerAsMailtoHandler :: "env \<Rightarrow> DesktopUtils \<Rightarrow> world \<Rightarrow> unit promise \<times> world" where
  "registerAsMailtoHandler env this w =
     (let w0 = record_event (LogDebug ''trying to register mailto...'') w in
      if platform env = ''win32'' then doRegisterMailtoOnWin32WithCurrentUser env this w0
      else if platform env = ''darwin'' then
        (let (didRegister, w1) = setAsDefaultProtocolClient env ''mailto'' w0
         in if \<not> didRegister then (Rejected (Error ''Could not register as mailto handler''), w1)
            else (Resolved (), w1))
      else if platform env = ''linux'' then
        (Rejected (Error ''Registering protocols on Linux does not work''), w0)
      else (Rejected (Error (''Invalid process.platform: '' @ platform env)), w0))"

definition unregisterAsMailtoHandler :: "env \<Rightarrow> DesktopUtils \<Rightarrow> world \<Rightarrow> unit promise \<times> world" where
  "unregisterAsMailtoHandler env this w =
     (let w0 = record_event (LogDebug ''trying to unregister mailto...'') w in
      if platform env = ''win32'' then doUnregisterMailtoOnWin32WithCurrentUser env this w0
      else if platform env = ''darwin'' then
        (let (didUnregister, w1) = removeAsDefaultProtocolClient env ''mailto'' w0
         in if \<not> didUnregister then (Rejected (Error ''Could not unregister as mailto handler''), w1)
            else (Resolved (), w1))
      else if platform env = ''linux'' then
        (Rejected (Error ''Registering protocols on Linux does not work''), w0)
      else (Rejected (Error (''Invalid process.platform: '' @ platform env)), w0))"

text \<open>
  \<^verbatim>\<open>deleteTutanotaTempDir\<close>. The body of the \<^verbatim>\<open>for\<close> loop with its inner \<^verbatim>\<open>try\<close> is
  \<open>purge_entries\<close>: an error of \<^verbatim>\<open>rmSync\<close> whose code is neither \<^verbatim>\<open>ENOENT\<close> nor \<^verbatim>\<open>EACCES\<close>
  is thrown again and ends the loop. The outer \<^verbatim>\<open>catch\<close> throws again every error
  whose code is not \<^verbatim>\<open>ENOENT\<close>, be it from \<^verbatim>\<open>readdirSync\<close> or from the loop.
\<close>

fun purge_entries :: "path \<Rightarrow> string list \<Rightarrow> world \<Rightarrow> (error + unit) \<times> world" where
  "purge_entries topLvlTmpDir [] w = (Inr (), w)"
| "purge_entries topLvlTmpDir (tmp # tmps) w =
     (let tmpSubPath = topLvlTmpDir @ [tmp] in
      case rmSync tmpSubPath w of
        (Inl e, w1) \<Rightarrow>
          if code e \<noteq> Some ''ENOENT'' \<and> code e \<noteq> Some ''EACCES'' then (Inl e, w1)
          else purge_entries topLvlTmpDir tmps w1
      | (Inr u, w1) \<Rightarrow> purge_entries topLvlTmpDir tmps w1)"

definition outer_catch :: "(error + unit) \<times> world \<Rightarrow> (error + unit) \<times> world" where
  "outer_catch r =
     (case r of
        (Inl e, w1) \<Rightarrow> if code e \<noteq> Some ''ENOENT'' then (Inl e, w1) else (Inr (), w1)
      | (Inr u, w1) \<Rightarrow> (Inr (), w1))"

definition deleteTutanotaTempDir :: "env \<Rightarrow> world \<Rightarrow> (error + unit) \<times> world" where
  "deleteTutanotaTempDir env w =
     (let topLvlTmpDir = tempDir env @ [topLevelTempDir] in
      outer_catch
        (case readdirSync topLvlTmpDir w of
           (Inl e, w1) \<Rightarrow> (Inl e, w1)
         | (Inr tmps, w1) \<Rightarrow> purge_entries topLvlTmpDir tmps w1))"

text \<open>The two scripts that the Windows flows hand to \<open>executeRegistryScript\<close>.\<close>

definition registerScript :: "env \<Rightarrow> string" where
  "registerScript env =
     makeRegisterKeysScript env CURRENT_USER (execPath env)
       (swapFilename (execPath env) ''mapirs.dll'')
       ([''%USERPROFILE%'', ''AppData''] @ [''Roaming'', appName env, ''logs''])
       ([''%USERPROFILE%'', ''AppData''] @ [''Local'', ''Temp'', topLevelTempDir, ''attach''])"

definition unregisterScript :: "env \<Rightarrow> string" where
  "unregisterScript env = makeUnregisterKeysScript env CURRENT_USER"

text \<open>
  What the operating system may answer to \<^verbatim>\<open>rmSync\<close> on an entry without ending the sweep
  of \<open>deleteTutanotaTempDir\<close>: no failure, \<^verbatim>\<open>ENOENT\<close> or \<^verbatim>\<open>EACCES\<close>.
\<close>

definition harmless :: "string option \<Rightarrow> bool" where
  "harmless f = (f = None \<or> f = Some ''ENOENT'' \<or> f = Some ''EACCES'')"

subsection \<open>Permission bits\<close>

text \<open>The bits of a mode for the group and for others (\<^verbatim>\<open>0o077\<close>), and the owner's write bit (\<^verbatim>\<open>0o200\<close>).\<close>

definition group_other_bits :: "nat \<Rightarrow> nat" where
  "group_other_bits mode = mode AND 63"

definition owner_write_bit :: "nat \<Rightarrow> nat" where
  "owner_write_bit mode = mode AND 128"

subsection \<open>A concrete environment and a concrete world\<close>

text \<open>
  An installation of version 2.0 on Windows whose lock requests are all refused, and a
  disk that holds the temp directory and a lock file written by version 1.0.
\<close>

definition demo_env :: env where
  "demo_env =
     \<lparr>platform = ''win32'',
      execPath = [''C:'', ''Program Files'', ''Tutanota'', ''tutanota.exe''],
      appVersion = ''2.0'',
      appName = ''tutanota-desktop'',
      tempDir = [''tmp''],
      lockGranted = (\<lambda>n. False),
      entropy = (\<lambda>k i. of_nat (17 * k + 29 * i + 3)),
      duringDelay = (\<lambda>w. w),
      setAsDefaultResult = True,
      removeAsDefaultResult = True,
      openExternalResult = Rejected (Error ''no handler''),
      helperExit = Exited 0,
      makeRegisterKeysScript = (\<lambda>root a b c d. ''register''),
      makeUnregisterKeysScript = (\<lambda>root. ''unregister'')\<rparr>"

definition no_faults :: "fsop \<Rightarrow> path \<Rightarrow> string option" where
  "no_faults opn p = None"

definition demo_world :: world where
  "demo_world =
     \<lparr>files = [([''tmp''], Dir 511), ([''tmp'', ''tutanota_desktop_lockfile''], File ''1.0'' 438)],
      faults = no_faults,
      trace = []\<rparr>"

text \<open>
  A disk with three scratch directories left by earlier runs, where the operating
  system fails the removal of the second one with the code \<open>c\<close>.
\<close>

definition purge_world :: "string \<Rightarrow> world" where
  "purge_world c =
     \<lparr>files =
        [([''tmp''], Dir 511), ([''tmp'', ''tutanota''], Dir 448),
         ([''tmp'', ''tutanota'', ''a''], Dir 448),
         ([''tmp'', ''tutanota'', ''a'', ''f''], File ''x'' 256),
         ([''tmp'', ''tutanota'', ''b''], Dir 448),
         ([''tmp'', ''tutanota'', ''c''], Dir 448)],
      faults = (\<lambda>opn p. if opn = OpRm \<and> p = [''tmp'', ''tutanota'', ''b''] then Some c else None),
      trace = []\<rparr>"

section \<open>Properties\<close>

lemmas fs_defs = fs_call_def readFile_def writeFile_def mkdir_def mkdirSync_def readdirSync_def
  rmSync_def unlinkSync_def fs_read_def fs_write_def fs_mkdir_def fs_readdir_def fs_rm_def
  fs_unlink_def is_dir_def is_file_def children_def

lemmas app_defs = record_event_def requestSingleInstanceLock_def quit_def delay_def
  randomBytes_def setAsDefaultProtocolClient_def removeAsDefaultProtocolClient_def
  openExternal_def spawn_def

lemmas demo_defs = demo_env_def demo_world_def no_faults_def getLockFilePath_def
  defaultFileMode_def defaultDirMode_def topLevelTempDir_def

subsection \<open>The single-instance lock\<close>

lemma writeFile_trace:
  "trace (snd (writeFile p c mode w)) = trace w @ [WriteFile p c mode]"
  by (simp add: writeFile_def fs_call_def Let_def split: option.splits sum.splits prod.splits)

lemma overridden_cases:
  "\<exists>canStay w4 t. singleInstanceLockOverridden env w = (Resolved canStay, w4)
      \<and> trace w4 = trace w @ t
      \<and> (t = [ReadFile (getLockFilePath env)]
         \<or> t = [ReadFile (getLockFilePath env),
                WriteFile (getLockFilePath env) (appVersion env) defaultFileMode])"
  by (auto simp: singleInstanceLockOverridden_def readFile_def writeFile_def fs_call_def Let_def
           split: option.splits sum.splits prod.splits)

lemma makeSingleInstance_granted:
  assumes "lockGranted env (length (filter is_lock_request (trace w)))"
  shows "makeSingleInstance env w =
     (Resolved True,
      record_event (RequestSingleInstanceLock True)
        (snd (writeFile (getLockFilePath env) (appVersion env) defaultFileMode w)))"
proof -
  obtain r0 w1 where wf: "writeFile (getLockFilePath env) (appVersion env) defaultFileMode w = (r0, w1)"
    by (cases "writeFile (getLockFilePath env) (appVersion env) defaultFileMode w") simp
  have "trace w1 = trace w @ [WriteFile (getLockFilePath env) (appVersion env) defaultFileMode]"
    using writeFile_trace [of "getLockFilePath env" "appVersion env" defaultFileMode w] wf by simp
  then show ?thesis
    using wf assms by (simp add: makeSingleInstance_def requestSingleInstanceLock_def Let_def)
qed

lemma makeSingleInstance_refused:
  fixes env :: env and w :: world
  defines "n \<equiv> length (filter is_lock_request (trace w))"
  defines "w1 \<equiv> snd (writeFile (getLockFilePath env) (appVersion env) defaultFileMode w)"
  assumes nog: "\<not> lockGranted env n"
    and ov: "singleInstanceLockOverridden env
               (delay env 1500 (record_event (RequestSingleInstanceLock False) w1)) =
             (Resolved canStay, w4)"
  shows "makeSingleInstance env w =
     (Resolved canStay,
      if canStay then record_event (RequestSingleInstanceLock (lockGranted env (Suc n))) w4
      else quit w4)"
proof -
  let ?w3 = "delay env 1500 (record_event (RequestSingleInstanceLock False) w1)"
  obtain r0 where wf: "writeFile (getLockFilePath env) (appVersion env) defaultFileMode w = (r0, w1)"
    unfolding w1_def
    by (cases "writeFile (getLockFilePath env) (appVersion env) defaultFileMode w") simp
  have t1: "trace w1 = trace w @ [WriteFile (getLockFilePath env) (appVersion env) defaultFileMode]"
    unfolding w1_def by (rule writeFile_trace)
  have cnt: "length (filter is_lock_request (trace w1)) = n"
    by (simp add: t1 n_def)
  obtain t where tr: "trace w4 = trace ?w3 @ t"
    and tt: "t = [ReadFile (getLockFilePath env)]
       \<or> t = [ReadFile (getLockFilePath env),
              WriteFile (getLockFilePath env) (appVersion env) defaultFileMode]"
    using overridden_cases [of env ?w3] ov by auto
  have cnt4: "length (filter is_lock_request (trace w4)) = Suc n"
    using tt by (auto simp: tr delay_def record_event_def t1 n_def)
  show ?thesis
    using wf cnt nog ov cnt4
    by (simp add: makeSingleInstance_def requestSingleInstanceLock_def Let_def)
qed

text \<open>
  Claim C1. \<open>makeSingleInstance\<close> first writes the own version to the lock file, whatever
  the outcome of that write (\<open>w1\<close> is the world after it, and the promise is never
  rejected). If the lock is then granted, the result is \<open>true\<close> and nothing else
  happens: no delay. Otherwise it sleeps 1500 ms, runs \<open>singleInstanceLockOverridden\<close>
  and resolves to its answer \<open>canStay\<close>, after one more lock request when \<open>canStay\<close>
  holds and after \<open>app.quit()\<close> when it does not.
\<close>

theorem makeSingleInstance_algorithm:
  fixes env :: env and w :: world
  defines "lock \<equiv> getLockFilePath env"
  defines "own \<equiv> appVersion env"
  defines "n \<equiv> length (filter is_lock_request (trace w))"
  defines "w1 \<equiv> snd (writeFile lock own defaultFileMode w)"
  defines "w3 \<equiv> delay env 1500 (record_event (RequestSingleInstanceLock False) w1)"
  shows
    "trace w1 = trace w @ [WriteFile lock own defaultFileMode]
     \<and> (\<exists>b. fst (makeSingleInstance env w) = Resolved b)
     \<and> (lockGranted env n \<longrightarrow>
          makeSingleInstance env w =
            (Resolved True, record_event (RequestSingleInstanceLock True) w1))
     \<and> (\<not> lockGranted env n \<longrightarrow>
          (\<exists>canStay w4.
             singleInstanceLockOverridden env w3 = (Resolved canStay, w4)
             \<and> makeSingleInstance env w =
                 (Resolved canStay,
                  if canStay
                  then record_event (RequestSingleInstanceLock (lockGranted env (Suc n))) w4
                  else quit w4)))"
proof -
  have t1: "trace w1 = trace w @ [WriteFile lock own defaultFileMode]"
    unfolding w1_def by (rule writeFile_trace)
  have granted: "makeSingleInstance env w =
      (Resolved True, record_event (RequestSingleInstanceLock True) w1)"
    if "lockGranted env n"
    using makeSingleInstance_granted [of env w] that
    by (simp add: n_def w1_def lock_def own_def)
  have refused: "\<exists>canStay w4.
      singleInstanceLockOverridden env w3 = (Resolved canStay, w4)
      \<and> makeSingleInstance env w =
          (Resolved canStay,
           if canStay
           then record_event (RequestSingleInstanceLock (lockGranted env (Suc n))) w4
           else quit w4)"
    if nog: "\<not> lockGranted env n"
  proof -
    obtain canStay w4 where ov: "singleInstanceLockOverridden env w3 = (Resolved canStay, w4)"
      using overridden_cases [of env w3] by blast
    have "makeSingleInstance env w =
        (Resolved canStay,
         if canStay
         then record_event (RequestSingleInstanceLock (lockGranted env (Suc n))) w4
         else quit w4)"
      using makeSingleInstance_refused [of env w canStay w4] nog ov
      by (simp add: n_def w1_def w3_def lock_def own_def)
    with ov show ?thesis by blast
  qed
  have settled: "\<exists>b. fst (makeSingleInstance env w) = Resolved b"
  proof (cases "lockGranted env n")
    case True
    then show ?thesis using granted by auto
  next
    case False
    then obtain canStay w4 where "makeSingleInstance env w =
        (Resolved canStay,
         if canStay
         then record_event (RequestSingleInstanceLock (lockGranted env (Suc n))) w4
         else quit w4)"
      using refused by blast
    then show ?thesis by simp
  qed
  from t1 settled granted refused show ?thesis by blast
qed

lemma demo_register_staging:
  "fst (executeRegistryScript demo_env \<lparr>randomDirectoryName = ''x''\<rparr> (registerScript demo_env)
     (record_event (LogDebug ''trying to register mailto...'') demo_world)) = Resolved ()"
  by code_simp

lemma demo_register_rejected:
  "fst (doRegisterMailtoOnWin32WithCurrentUser (demo_env\<lparr>helperExit := Exited 1\<rparr>)
          \<lparr>randomDirectoryName = ''x''\<rparr> demo_world) =
     Rejected (Error ''couldn't execute registry script'')"
  by code_simp

lemma demo_unregister_rejected:
  "fst (doUnregisterMailtoOnWin32WithCurrentUser (demo_env\<lparr>helperExit := Exited 1\<rparr>)
          \<lparr>randomDirectoryName = ''x''\<rparr> demo_world) =
     Rejected (Error ''couldn't execute registry script'')"
  by code_simp

lemma demo_register_script_runs:
  "fst (executeRegistryScript demo_env \<lparr>randomDirectoryName = ''x''\<rparr> (registerScript demo_env)
          demo_world) = Resolved ()"
  by code_simp

lemma demo_unregister_script_runs:
  "fst (executeRegistryScript demo_env \<lparr>randomDirectoryName = ''x''\<rparr> (unregisterScript demo_env)
          (record_event (RemoveAsDefaultProtocolClient ''mailto'') demo_world)) = Resolved ()"
  by code_simp

lemma demo_random_name:
  "base64ToBase64Url (uint8ArrayToBase64 (fst (randomBytes demo_env 16 demo_world))) =
     ''AyA9WneUsc7rCCVCX3yZtg''"
  by code_simp

lemma demo_first_call:
  "fst (getTutanotaTempPath demo_env \<lparr>randomDirectoryName = ''AyA9WneUsc7rCCVCX3yZtg''\<rparr>
          (snd (new_DesktopUtils demo_env demo_world))) =
     Inr [''tmp'', ''tutanota'', ''AyA9WneUsc7rCCVCX3yZtg'']"
  by code_simp

lemma demo_scratch_absent:
  "map_of (files demo_world) [''tmp'', ''tutanota'', ''x''] = None"
  by code_simp

lemma demo_scratch_created:
  "fst (getTutanotaTempPath demo_env \<lparr>randomDirectoryName = ''x''\<rparr> demo_world) =
     Inr [''tmp'', ''tutanota'', ''x'']"
  by code_simp

lemma demo_staged:
  "fst (writeToDisk demo_env \<lparr>randomDirectoryName = ''x''\<rparr> ''register'' demo_world) =
     Resolved [''tmp'', ''tutanota'', ''x'', ''reg'', ''03203d5a7794b1ceeb082542'']"
  by code_simp

lemma demo_staged_absent:
  "map_of (files demo_world) [''tmp'', ''tutanota'', ''x'', ''reg'', ''03203d5a7794b1ceeb082542''] = None"
  by code_simp

lemma demo_staged_unlink_allowed:
  "faults (snd (writeToDisk demo_env \<lparr>randomDirectoryName = ''x''\<rparr> ''register'' demo_world))
     OpUnlink [''tmp'', ''tutanota'', ''x'', ''reg'', ''03203d5a7794b1ceeb082542''] = None"
  by code_simp

lemma purge_world_children:
  "children (files (purge_world c)) (tempDir demo_env @ [''tutanota'']) = [''a'', ''b'', ''c'']"
  by (simp add: purge_world_def children_def demo_env_def)

lemma purge_world_listable:
  "faults (purge_world c) OpReaddir (tempDir demo_env @ [''tutanota'']) = None
   \<and> is_dir (files (purge_world c)) (tempDir demo_env @ [''tutanota''])"
  by (simp add: purge_world_def is_dir_def demo_env_def)

lemma demo_scratch_in_use:
  "is_dir (files (snd (writeToDisk demo_env \<lparr>randomDirectoryName = ''x''\<rparr> ''register'' demo_world)))
     (tempDir demo_env @ [''tutanota''])"
  "map_of (files (snd (writeToDisk demo_env \<lparr>randomDirectoryName = ''x''\<rparr> ''register'' demo_world)))
     (tempDir demo_env @ [''tutanota'', randomDirectoryName \<lparr>randomDirectoryName = ''x''\<rparr>]) \<noteq> None"
  "faults (snd (writeToDisk demo_env \<lparr>randomDirectoryName = ''x''\<rparr> ''register'' demo_world))
     OpReaddir (tempDir demo_env @ [''tutanota'']) = None"
  "\<forall>n \<in> set (children
        (files (snd (writeToDisk demo_env \<lparr>randomDirectoryName = ''x''\<rparr> ''register'' demo_world)))
        (tempDir demo_env @ [''tutanota''])).
     harmless (faults (snd (writeToDisk demo_env \<lparr>randomDirectoryName = ''x''\<rparr> ''register'' demo_world))
       OpRm ((tempDir demo_env @ [''tutanota'']) @ [n]))"
  "faults (snd (writeToDisk demo_env \<lparr>randomDirectoryName = ''x''\<rparr> ''register'' demo_world))
     OpRm (tempDir demo_env @ [''tutanota'', randomDirectoryName \<lparr>randomDirectoryName = ''x''\<rparr>]) = None"
  by code_simp+

text \<open>
  The theorem at two inputs. Version 2.0 starts, the lock is refused and nobody touches
  the lock file while it sleeps: it reads back its own version and quits. With the lock
  granted, the same start resolves to \<open>true\<close> after the write and the request alone.
\<close>

theorem makeSingleInstance_algorithm_witness:
  "makeSingleInstance demo_env demo_world =
     (Resolved False,
      demo_world
        \<lparr>files := [([''tmp''], Dir 511), ([''tmp'', ''tutanota_desktop_lockfile''], File ''2.0'' 438)],
         trace :=
           [WriteFile [''tmp'', ''tutanota_desktop_lockfile''] ''2.0'' 438,
            RequestSingleInstanceLock False, Delay 1500,
            ReadFile [''tmp'', ''tutanota_desktop_lockfile''],
            WriteFile [''tmp'', ''tutanota_desktop_lockfile''] ''2.0'' 438, Quit]\<rparr>)
   \<and> makeSingleInstance (demo_env\<lparr>lockGranted := \<lambda>n. True\<rparr>) demo_world =
     (Resolved True,
      demo_world
        \<lparr>files := [([''tmp''], Dir 511), ([''tmp'', ''tutanota_desktop_lockfile''], File ''2.0'' 438)],
         trace :=
           [WriteFile [''tmp'', ''tutanota_desktop_lockfile''] ''2.0'' 438,
            RequestSingleInstanceLock True]\<rparr>)"
  using makeSingleInstance_algorithm [where env = demo_env and w = demo_world]
    makeSingleInstance_algorithm
      [where env = "demo_env\<lparr>lockGranted := \<lambda>n. True\<rparr>" and w = demo_world]
  by (auto simp add: demo_defs singleInstanceLockOverridden_def fs_defs app_defs Let_def)

text \<open>
  Claim C2. \<open>singleInstanceLockOverridden\<close> never rejects. When the lock file holds
  \<open>observed\<close> and the operating system fails neither the read nor the write, the file
  is read, then overwritten with the own version, and the answer is \<open>true\<close> exactly
  when \<open>observed\<close> differs from the own version. When the read fails the answer is
  \<open>false\<close> and nothing is written; when the write fails the answer is \<open>false\<close>.
\<close>

theorem singleInstanceLockOverridden_result:
  fixes env :: env and w :: world
  defines "lock \<equiv> getLockFilePath env"
  defines "own \<equiv> appVersion env"
  shows
    "(faults w OpRead lock = None \<and> faults w OpWrite lock = None \<and>
        map_of (files w) lock = Some (File observed m) \<longrightarrow>
      singleInstanceLockOverridden env w =
        (Resolved (observed \<noteq> own),
         w\<lparr>trace := trace w @ [ReadFile lock, WriteFile lock own defaultFileMode],
            files := AList.update lock (File own m) (files w)\<rparr>))
     \<and> (faults w OpRead lock \<noteq> None \<or> \<not> is_file (files w) lock \<longrightarrow>
      singleInstanceLockOverridden env w =
        (Resolved False, w\<lparr>trace := trace w @ [ReadFile lock]\<rparr>))
     \<and> (faults w OpRead lock = None \<and> is_file (files w) lock \<and> faults w OpWrite lock \<noteq> None \<longrightarrow>
      singleInstanceLockOverridden env w =
        (Resolved False,
         w\<lparr>trace := trace w @ [ReadFile lock, WriteFile lock own defaultFileMode]\<rparr>))"
  unfolding lock_def own_def
  by (auto simp: singleInstanceLockOverridden_def fs_defs Let_def
           split: option.splits node.splits)

text \<open>
  The theorem at four inputs: a lock file of version 1.0 read by version 2.0 (overridden),
  a lock file of version 2.0 read by version 2.0 (not overridden), a read that the
  operating system refuses, and a write that it refuses.
\<close>

theorem singleInstanceLockOverridden_result_witness:
  "singleInstanceLockOverridden demo_env demo_world =
     (Resolved True,
      demo_world
        \<lparr>trace := [ReadFile [''tmp'', ''tutanota_desktop_lockfile''],
                   WriteFile [''tmp'', ''tutanota_desktop_lockfile''] ''2.0'' 438],
         files := [([''tmp''], Dir 511), ([''tmp'', ''tutanota_desktop_lockfile''], File ''2.0'' 438)]\<rparr>)
   \<and> fst (singleInstanceLockOverridden (demo_env\<lparr>appVersion := ''1.0''\<rparr>) demo_world) = Resolved False
   \<and> singleInstanceLockOverridden demo_env
       (demo_world\<lparr>faults := \<lambda>opn p. if opn = OpRead then Some ''EACCES'' else None\<rparr>) =
     (Resolved False,
      demo_world
        \<lparr>faults := \<lambda>opn p. if opn = OpRead then Some ''EACCES'' else None,
         trace := [ReadFile [''tmp'', ''tutanota_desktop_lockfile'']]\<rparr>)
   \<and> singleInstanceLockOverridden demo_env
       (demo_world\<lparr>faults := \<lambda>opn p. if opn = OpWrite then Some ''EROFS'' else None\<rparr>) =
     (Resolved False,
      demo_world
        \<lparr>faults := \<lambda>opn p. if opn = OpWrite then Some ''EROFS'' else None,
         trace := [ReadFile [''tmp'', ''tutanota_desktop_lockfile''],
                   WriteFile [''tmp'', ''tutanota_desktop_lockfile''] ''2.0'' 438]\<rparr>)"
  using singleInstanceLockOverridden_result
      [where w = demo_world and env = demo_env and observed = "''1.0''" and m = 438]
    singleInstanceLockOverridden_result
      [where w = demo_world and env = "demo_env\<lparr>appVersion := ''1.0''\<rparr>"
         and observed = "''1.0''" and m = 438]
    singleInstanceLockOverridden_result
      [where w = "demo_world\<lparr>faults := \<lambda>opn p. if opn = OpRead then Some ''EACCES'' else None\<rparr>"
         and env = demo_env]
    singleInstanceLockOverridden_result
      [where w = "demo_world\<lparr>faults := \<lambda>opn p. if opn = OpWrite then Some ''EROFS'' else None\<rparr>"
         and env = demo_env]
  by (simp add: demo_defs is_file_def)

text \<open>
  Claim C9. When the first lock request is refused and the override check answers
  \<open>true\<close>, \<open>makeSingleInstance\<close> requests the lock once more and resolves to \<open>true\<close>
  whatever the answer to that second request is: the answer is recorded in the trace
  and appears nowhere in the result.
\<close>

theorem makeSingleInstance_ignores_second_answer:
  fixes env :: env and w :: world
  defines "n \<equiv> length (filter is_lock_request (trace w))"
  defines "w1 \<equiv> snd (writeFile (getLockFilePath env) (appVersion env) defaultFileMode w)"
  assumes "\<not> lockGranted env n"
    and "singleInstanceLockOverridden env
           (delay env 1500 (record_event (RequestSingleInstanceLock False) w1)) =
         (Resolved True, w4)"
  shows "fst (makeSingleInstance env w) = Resolved True
     \<and> trace (snd (makeSingleInstance env w)) =
         trace w4 @ [RequestSingleInstanceLock (lockGranted env (Suc n))]
     \<and> files (snd (makeSingleInstance env w)) = files w4"
  using makeSingleInstance_refused [of env w True w4] assms
  by (simp add: record_event_def)

text \<open>
  The theorem at an input where every lock request is refused: version 2.0 starts, and
  while it sleeps another process writes 1.0 into the lock file. The result is \<open>true\<close>
  although the trace shows the second request refused as well.
\<close>

theorem makeSingleInstance_ignores_second_answer_witness:
  "fst (makeSingleInstance
          (demo_env\<lparr>duringDelay := \<lambda>w. w\<lparr>files :=
             AList.update [''tmp'', ''tutanota_desktop_lockfile''] (File ''1.0'' 438) (files w)\<rparr>\<rparr>)
          demo_world) = Resolved True
   \<and> trace (snd (makeSingleInstance
          (demo_env\<lparr>duringDelay := \<lambda>w. w\<lparr>files :=
             AList.update [''tmp'', ''tutanota_desktop_lockfile''] (File ''1.0'' 438) (files w)\<rparr>\<rparr>)
          demo_world)) =
       [WriteFile [''tmp'', ''tutanota_desktop_lockfile''] ''2.0'' 438,
        RequestSingleInstanceLock False, Delay 1500,
        ReadFile [''tmp'', ''tutanota_desktop_lockfile''],
        WriteFile [''tmp'', ''tutanota_desktop_lockfile''] ''2.0'' 438,
        RequestSingleInstanceLock False]"
  using makeSingleInstance_ignores_second_answer
    [where env = "demo_env\<lparr>duringDelay := \<lambda>w. w\<lparr>files :=
             AList.update [''tmp'', ''tutanota_desktop_lockfile''] (File ''1.0'' 438) (files w)\<rparr>\<rparr>"
       and w = demo_world
       and ?w4.0 = "demo_world\<lparr>trace :=
         [WriteFile [''tmp'', ''tutanota_desktop_lockfile''] ''2.0'' 438,
          RequestSingleInstanceLock False, Delay 1500,
          ReadFile [''tmp'', ''tutanota_desktop_lockfile''],
          WriteFile [''tmp'', ''tutanota_desktop_lockfile''] ''2.0'' 438],
         files := [([''tmp''], Dir 511), ([''tmp'', ''tutanota_desktop_lockfile''], File ''2.0'' 438)]\<rparr>"]
  by (simp add: demo_defs singleInstanceLockOverridden_def fs_defs app_defs Let_def)

subsection \<open>Registration as the handler of mailto links\<close>

lemma openDefaultAppsSettings_cases:
  "openDefaultAppsSettings env w =
     (case openExternalResult env of
        Resolved u \<Rightarrow> (Resolved (), w\<lparr>trace := trace w @ [OpenExternal ''ms-settings:defaultapps'']\<rparr>)
      | Rejected e \<Rightarrow>
          (Resolved (),
           w\<lparr>trace := trace w @ [OpenExternal ''ms-settings:defaultapps'',
                ConsoleError [''failed to open default apps settings page:'', message e]]\<rparr>)
      | Pending \<Rightarrow> (Pending, w\<lparr>trace := trace w @ [OpenExternal ''ms-settings:defaultapps'']\<rparr>))"
  by (simp add: openDefaultAppsSettings_def openExternal_def record_event_def split: promise.splits)

lemma doRegister_win32:
  assumes "platform env = ''win32''"
  shows "doRegisterMailtoOnWin32WithCurrentUser env this w =
     (case executeRegistryScript env this (registerScript env) w of
        (Rejected e, w1) \<Rightarrow> (Rejected e, w1)
      | (Pending, w1) \<Rightarrow> (Pending, w1)
      | (Resolved u, w1) \<Rightarrow>
          openDefaultAppsSettings env (record_event (SetAsDefaultProtocolClient ''mailto'') w1))"
  using assms
  by (simp add: doRegisterMailtoOnWin32WithCurrentUser_def registerScript_def Let_def
        setAsDefaultProtocolClient_def split: prod.splits promise.splits)

lemma doUnregister_win32:
  assumes "platform env = ''win32''"
  shows "doUnregisterMailtoOnWin32WithCurrentUser env this w =
     (case executeRegistryScript env this (unregisterScript env)
             (record_event (RemoveAsDefaultProtocolClient ''mailto'') w) of
        (Rejected e, w2) \<Rightarrow> (Rejected e, w2)
      | (Pending, w2) \<Rightarrow> (Pending, w2)
      | (Resolved u, w2) \<Rightarrow> openDefaultAppsSettings env w2)"
  using assms
  by (simp add: doUnregisterMailtoOnWin32WithCurrentUser_def unregisterScript_def Let_def
        removeAsDefaultProtocolClient_def split: prod.splits promise.splits)

text \<open>
  Claim C5. \<open>registerAsMailtoHandler\<close> and \<open>unregisterAsMailtoHandler\<close> log one line and
  then branch on the platform. On \<open>win32\<close> they run the registry flow: the script is
  executed, and the default-handler call and the settings page follow. On \<open>darwin\<close> they
  make the one call to the application object and reject exactly when it answers
  \<open>false\<close>. On \<open>linux\<close> they reject at once: nothing but the log line is recorded and
  no file changes. On every other platform they reject at once with a message that
  ends in the platform string.
\<close>

theorem mailto_handler_platform_dispatch:
  fixes env :: env and this :: DesktopUtils and w :: world
  defines "wr \<equiv> record_event (LogDebug ''trying to register mailto...'') w"
  defines "wu \<equiv> record_event (LogDebug ''trying to unregister mailto...'') w"
  shows
    "(platform env = ''win32'' \<longrightarrow>
        registerAsMailtoHandler env this w =
          (case executeRegistryScript env this (registerScript env) wr of
             (Rejected e, w1) \<Rightarrow> (Rejected e, w1)
           | (Pending, w1) \<Rightarrow> (Pending, w1)
           | (Resolved u, w1) \<Rightarrow>
               openDefaultAppsSettings env (record_event (SetAsDefaultProtocolClient ''mailto'') w1))
        \<and> unregisterAsMailtoHandler env this w =
          (case executeRegistryScript env this (unregisterScript env)
                  (record_event (RemoveAsDefaultProtocolClient ''mailto'') wu) of
             (Rejected e, w2) \<Rightarrow> (Rejected e, w2)
           | (Pending, w2) \<Rightarrow> (Pending, w2)
           | (Resolved u, w2) \<Rightarrow> openDefaultAppsSettings env w2))
     \<and> (platform env = ''darwin'' \<longrightarrow>
        registerAsMailtoHandler env this w =
          (if setAsDefaultResult env then Resolved ()
           else Rejected (Error ''Could not register as mailto handler''),
           record_event (SetAsDefaultProtocolClient ''mailto'') wr)
        \<and> unregisterAsMailtoHandler env this w =
          (if removeAsDefaultResult env then Resolved ()
           else Rejected (Error ''Could not unregister as mailto handler''),
           record_event (RemoveAsDefaultProtocolClient ''mailto'') wu))
     \<and> (platform env = ''linux'' \<longrightarrow>
        registerAsMailtoHandler env this w =
          (Rejected (Error ''Registering protocols on Linux does not work''), wr)
        \<and> unregisterAsMailtoHandler env this w =
          (Rejected (Error ''Registering protocols on Linux does not work''), wu))
     \<and> (platform env \<noteq> ''win32'' \<and> platform env \<noteq> ''darwin'' \<and> platform env \<noteq> ''linux'' \<longrightarrow>
        registerAsMailtoHandler env this w =
          (Rejected (Error (''Invalid process.platform: '' @ platform env)), wr)
        \<and> unregisterAsMailtoHandler env this w =
          (Rejected (Error (''Invalid process.platform: '' @ platform env)), wu))
     \<and> files wr = files w \<and> trace wr = trace w @ [LogDebug ''trying to register mailto...'']
     \<and> files wu = files w \<and> trace wu = trace w @ [LogDebug ''trying to unregister mailto...'']"
proof -
  have win: "platform env = ''win32'' \<Longrightarrow>
        registerAsMailtoHandler env this w = doRegisterMailtoOnWin32WithCurrentUser env this wr
      \<and> unregisterAsMailtoHandler env this w = doUnregisterMailtoOnWin32WithCurrentUser env this wu"
    by (simp add: registerAsMailtoHandler_def unregisterAsMailtoHandler_def wr_def wu_def Let_def)
  have rest: "platform env \<noteq> ''win32'' \<Longrightarrow>
        registerAsMailtoHandler env this w =
          (if platform env = ''darwin'' then
             (if setAsDefaultResult env then Resolved ()
              else Rejected (Error ''Could not register as mailto handler''),
              record_event (SetAsDefaultProtocolClient ''mailto'') wr)
           else if platform env = ''linux'' then
             (Rejected (Error ''Registering protocols on Linux does not work''), wr)
           else (Rejected (Error (''Invalid process.platform: '' @ platform env)), wr))
      \<and> unregisterAsMailtoHandler env this w =
          (if platform env = ''darwin'' then
             (if removeAsDefaultResult env then Resolved ()
              else Rejected (Error ''Could not unregister as mailto handler''),
              record_event (RemoveAsDefaultProtocolClient ''mailto'') wu)
           else if platform env = ''linux'' then
             (Rejected (Error ''Registering protocols on Linux does not work''), wu)
           else (Rejected (Error (''Invalid process.platform: '' @ platform env)), wu))"
    by (simp add: registerAsMailtoHandler_def unregisterAsMailtoHandler_def wr_def wu_def Let_def
          setAsDefaultProtocolClient_def removeAsDefaultProtocolClient_def)
  have tr: "files wr = files w \<and> trace wr = trace w @ [LogDebug ''trying to register mailto...'']
     \<and> files wu = files w \<and> trace wu = trace w @ [LogDebug ''trying to unregister mailto...'']"
    by (simp add: wr_def wu_def record_event_def)
  show ?thesis
    using win rest tr doRegister_win32 [of env this wr] doUnregister_win32 [of env this wu]
    by auto
qed



text \<open>
  The theorem at \<open>linux\<close>, at the unknown platform \<open>freebsd\<close>, at \<open>darwin\<close> with a call
  that succeeds and one that fails, and at \<open>win32\<close>.
\<close>

theorem mailto_handler_platform_dispatch_witness:
  "registerAsMailtoHandler (demo_env\<lparr>platform := ''linux''\<rparr>) \<lparr>randomDirectoryName = ''x''\<rparr> demo_world =
     (Rejected (Error ''Registering protocols on Linux does not work''),
      demo_world\<lparr>trace := [LogDebug ''trying to register mailto...'']\<rparr>)
   \<and> unregisterAsMailtoHandler (demo_env\<lparr>platform := ''linux''\<rparr>) \<lparr>randomDirectoryName = ''x''\<rparr> demo_world =
     (Rejected (Error ''Registering protocols on Linux does not work''),
      demo_world\<lparr>trace := [LogDebug ''trying to unregister mailto...'']\<rparr>)
   \<and> registerAsMailtoHandler (demo_env\<lparr>platform := ''freebsd''\<rparr>) \<lparr>randomDirectoryName = ''x''\<rparr> demo_world =
     (Rejected (Error ''Invalid process.platform: freebsd''),
      demo_world\<lparr>trace := [LogDebug ''trying to register mailto...'']\<rparr>)
   \<and> unregisterAsMailtoHandler (demo_env\<lparr>platform := ''freebsd''\<rparr>) \<lparr>randomDirectoryName = ''x''\<rparr> demo_world =
     (Rejected (Error ''Invalid process.platform: freebsd''),
      demo_world\<lparr>trace := [LogDebug ''trying to unregister mailto...'']\<rparr>)
   \<and> registerAsMailtoHandler (demo_env\<lparr>platform := ''darwin''\<rparr>) \<lparr>randomDirectoryName = ''x''\<rparr> demo_world =
     (Resolved (),
      demo_world\<lparr>trace := [LogDebug ''trying to register mailto...'',
                            SetAsDefaultProtocolClient ''mailto'']\<rparr>)
   \<and> unregisterAsMailtoHandler (demo_env\<lparr>platform := ''darwin'', removeAsDefaultResult := False\<rparr>)
        \<lparr>randomDirectoryName = ''x''\<rparr> demo_world =
     (Rejected (Error ''Could not unregister as mailto handler''),
      demo_world\<lparr>trace := [LogDebug ''trying to unregister mailto...'',
                            RemoveAsDefaultProtocolClient ''mailto'']\<rparr>)
   \<and> fst (registerAsMailtoHandler demo_env \<lparr>randomDirectoryName = ''x''\<rparr> demo_world) = Resolved ()"
proof -
  have win: "platform demo_env = ''win32''"
    by (simp add: demo_env_def)
  show ?thesis
    using mailto_handler_platform_dispatch
        [where env = "demo_env\<lparr>platform := ''linux''\<rparr>" and this = "\<lparr>randomDirectoryName = ''x''\<rparr>"
           and w = demo_world]
      mailto_handler_platform_dispatch
        [where env = "demo_env\<lparr>platform := ''freebsd''\<rparr>" and this = "\<lparr>randomDirectoryName = ''x''\<rparr>"
           and w = demo_world]
      mailto_handler_platform_dispatch
        [where env = "demo_env\<lparr>platform := ''darwin''\<rparr>" and this = "\<lparr>randomDirectoryName = ''x''\<rparr>"
           and w = demo_world]
      mailto_handler_platform_dispatch
        [where env = "demo_env\<lparr>platform := ''darwin'', removeAsDefaultResult := False\<rparr>"
           and this = "\<lparr>randomDirectoryName = ''x''\<rparr>" and w = demo_world]
      mailto_handler_platform_dispatch
        [where env = demo_env and this = "\<lparr>randomDirectoryName = ''x''\<rparr>" and w = demo_world]
      win
    using demo_register_staging
    by (cases "executeRegistryScript demo_env \<lparr>randomDirectoryName = ''x''\<rparr> (registerScript demo_env)
         (record_event (LogDebug ''trying to register mailto...'') demo_world)")
       (simp add: openDefaultAppsSettings_cases demo_env_def demo_world_def record_event_def)
qed

text \<open>
  Claim C8. On \<open>win32\<close> the last step of both flows is \<open>openDefaultAppsSettings\<close>, which is
  reached whenever the registry script was executed successfully. That step never
  rejects and changes no file: when \<open>shell.openExternal\<close> rejects, the message is written
  with \<open>console.error\<close> and the step resolves. So a rejection of either flow is the
  rejection of \<open>executeRegistryScript\<close>, never one of the settings page.
\<close>

theorem win32_settings_page_best_effort:
  assumes "platform env = ''win32''"
  shows
    "(\<forall>w'. \<exists>w''. openDefaultAppsSettings env w' =
          (if openExternalResult env = Pending then Pending else Resolved (), w'')
        \<and> files w'' = files w'
        \<and> trace w'' = trace w' @ OpenExternal ''ms-settings:defaultapps'' #
            (case openExternalResult env of
               Rejected e \<Rightarrow> [ConsoleError [''failed to open default apps settings page:'', message e]]
             | Resolved u \<Rightarrow> []
             | Pending \<Rightarrow> []))
     \<and> (\<forall>w1. executeRegistryScript env this (registerScript env) w = (Resolved (), w1) \<longrightarrow>
          doRegisterMailtoOnWin32WithCurrentUser env this w =
            openDefaultAppsSettings env (record_event (SetAsDefaultProtocolClient ''mailto'') w1))
     \<and> (\<forall>w2. executeRegistryScript env this (unregisterScript env)
                (record_event (RemoveAsDefaultProtocolClient ''mailto'') w) = (Resolved (), w2) \<longrightarrow>
          doUnregisterMailtoOnWin32WithCurrentUser env this w = openDefaultAppsSettings env w2)
     \<and> (\<forall>e. fst (doRegisterMailtoOnWin32WithCurrentUser env this w) = Rejected e \<longrightarrow>
          fst (executeRegistryScript env this (registerScript env) w) = Rejected e)
     \<and> (\<forall>e. fst (doUnregisterMailtoOnWin32WithCurrentUser env this w) = Rejected e \<longrightarrow>
          fst (executeRegistryScript env this (unregisterScript env)
                 (record_event (RemoveAsDefaultProtocolClient ''mailto'') w)) = Rejected e)"
proof -
  have a: "\<forall>w'. \<exists>w''. openDefaultAppsSettings env w' =
          (if openExternalResult env = Pending then Pending else Resolved (), w'')
        \<and> files w'' = files w'
        \<and> trace w'' = trace w' @ OpenExternal ''ms-settings:defaultapps'' #
            (case openExternalResult env of
               Rejected e \<Rightarrow> [ConsoleError [''failed to open default apps settings page:'', message e]]
             | Resolved u \<Rightarrow> []
             | Pending \<Rightarrow> [])"
    by (simp add: openDefaultAppsSettings_cases split: promise.splits)
  have nr: "fst (openDefaultAppsSettings env w') \<noteq> Rejected e" for w' e
    by (simp add: openDefaultAppsSettings_cases split: promise.splits)
  have b: "\<forall>w1. executeRegistryScript env this (registerScript env) w = (Resolved (), w1) \<longrightarrow>
          doRegisterMailtoOnWin32WithCurrentUser env this w =
            openDefaultAppsSettings env (record_event (SetAsDefaultProtocolClient ''mailto'') w1)"
    using assms by (simp add: doRegister_win32)
  have c: "\<forall>w2. executeRegistryScript env this (unregisterScript env)
                (record_event (RemoveAsDefaultProtocolClient ''mailto'') w) = (Resolved (), w2) \<longrightarrow>
          doUnregisterMailtoOnWin32WithCurrentUser env this w = openDefaultAppsSettings env w2"
    using assms by (simp add: doUnregister_win32)
  have d: "\<forall>e. fst (doRegisterMailtoOnWin32WithCurrentUser env this w) = Rejected e \<longrightarrow>
          fst (executeRegistryScript env this (registerScript env) w) = Rejected e"
    using assms nr by (auto simp: doRegister_win32 split: prod.splits promise.splits)
  have e: "\<forall>e. fst (doUnregisterMailtoOnWin32WithCurrentUser env this w) = Rejected e \<longrightarrow>
          fst (executeRegistryScript env this (unregisterScript env)
                 (record_event (RemoveAsDefaultProtocolClient ''mailto'') w)) = Rejected e"
    using assms nr by (auto simp: doUnregister_win32 split: prod.splits promise.splits)
  from a b c d e show ?thesis by blast
qed

text \<open>
  The theorem on the Windows installation whose settings page cannot be opened: both
  flows resolve all the same. With a helper that exits with code 1 both flows reject,
  and the rejection is that of the script.
\<close>

theorem win32_settings_page_best_effort_witness:
  "platform demo_env = ''win32''
   \<and> openExternalResult demo_env = Rejected (Error ''no handler'')
   \<and> fst (doRegisterMailtoOnWin32WithCurrentUser demo_env \<lparr>randomDirectoryName = ''x''\<rparr> demo_world) =
       Resolved ()
   \<and> fst (doUnregisterMailtoOnWin32WithCurrentUser demo_env \<lparr>randomDirectoryName = ''x''\<rparr> demo_world) =
       Resolved ()
   \<and> platform (demo_env\<lparr>helperExit := Exited 1\<rparr>) = ''win32''
   \<and> fst (doRegisterMailtoOnWin32WithCurrentUser (demo_env\<lparr>helperExit := Exited 1\<rparr>)
            \<lparr>randomDirectoryName = ''x''\<rparr> demo_world) =
       Rejected (Error ''couldn't execute registry script'')
   \<and> fst (executeRegistryScript (demo_env\<lparr>helperExit := Exited 1\<rparr>) \<lparr>randomDirectoryName = ''x''\<rparr>
            (registerScript (demo_env\<lparr>helperExit := Exited 1\<rparr>)) demo_world) =
       Rejected (Error ''couldn't execute registry script'')
   \<and> fst (doUnregisterMailtoOnWin32WithCurrentUser (demo_env\<lparr>helperExit := Exited 1\<rparr>)
            \<lparr>randomDirectoryName = ''x''\<rparr> demo_world) =
       Rejected (Error ''couldn't execute registry script'')
   \<and> fst (executeRegistryScript (demo_env\<lparr>helperExit := Exited 1\<rparr>) \<lparr>randomDirectoryName = ''x''\<rparr>
            (unregisterScript (demo_env\<lparr>helperExit := Exited 1\<rparr>))
            (record_event (RemoveAsDefaultProtocolClient ''mailto'') demo_world)) =
       Rejected (Error ''couldn't execute registry script'')"
proof -
  have win: "platform demo_env = ''win32''"
    by (simp add: demo_env_def)
  have win': "platform (demo_env\<lparr>helperExit := Exited 1\<rparr>) = ''win32''"
    by (simp add: demo_env_def)
  note rej = win32_settings_page_best_effort
    [OF win', where this = "\<lparr>randomDirectoryName = ''x''\<rparr>" and w = demo_world,
     THEN conjunct2, THEN conjunct2, THEN conjunct2]
  note rejected = rej [THEN conjunct1, rule_format, OF demo_register_rejected]
    rej [THEN conjunct2, rule_format, OF demo_unregister_rejected]
  have ext: "openExternalResult demo_env = Rejected (Error ''no handler'')"
    by (simp add: demo_env_def)
  obtain w1 where r: "executeRegistryScript demo_env \<lparr>randomDirectoryName = ''x''\<rparr>
      (registerScript demo_env) demo_world = (Resolved (), w1)"
    using demo_register_script_runs
    by (cases "executeRegistryScript demo_env \<lparr>randomDirectoryName = ''x''\<rparr>
      (registerScript demo_env) demo_world") simp
  obtain w2 where u: "executeRegistryScript demo_env \<lparr>randomDirectoryName = ''x''\<rparr>
      (unregisterScript demo_env) (record_event (RemoveAsDefaultProtocolClient ''mailto'') demo_world) =
      (Resolved (), w2)"
    using demo_unregister_script_runs
    by (cases "executeRegistryScript demo_env \<lparr>randomDirectoryName = ''x''\<rparr>
      (unregisterScript demo_env) (record_event (RemoveAsDefaultProtocolClient ''mailto'') demo_world)")
       simp
  note inst = win32_settings_page_best_effort
    [OF win, where this = "\<lparr>randomDirectoryName = ''x''\<rparr>" and w = demo_world]
  have reg: "doRegisterMailtoOnWin32WithCurrentUser demo_env \<lparr>randomDirectoryName = ''x''\<rparr> demo_world =
      openDefaultAppsSettings demo_env (record_event (SetAsDefaultProtocolClient ''mailto'') w1)"
    using inst r by blast
  have unreg: "doUnregisterMailtoOnWin32WithCurrentUser demo_env \<lparr>randomDirectoryName = ''x''\<rparr> demo_world =
      openDefaultAppsSettings demo_env w2"
    using inst u by blast
  have settle: "fst (openDefaultAppsSettings demo_env w') = Resolved ()" for w'
  proof -
    obtain w'' where "openDefaultAppsSettings demo_env w' =
        (if openExternalResult demo_env = Pending then Pending else Resolved (), w'')"
      using inst by blast
    then show ?thesis by (simp add: ext)
  qed
  show ?thesis
    using win ext reg unreg settle win' rejected demo_register_rejected demo_unregister_rejected
    by simp
qed

subsection \<open>Facts about the file system\<close>

lemma pair_of_fst: "fst x = a \<Longrightarrow> x = (a, snd x)"
  by auto

lemma mkdirs_preserves:
  "mkdirs pre ns mode t = Inr t' \<Longrightarrow> map_of t q = Some v \<Longrightarrow> map_of t' q = Some v"
proof (induction ns arbitrary: pre t)
  case Nil
  then show ?case by simp
next
  case (Cons n ns)
  show ?case
  proof (cases "map_of t (pre @ [n])")
    case None
    with Cons.prems have rec: "mkdirs (pre @ [n]) ns mode (AList.update (pre @ [n]) (Dir mode) t) = Inr t'"
      by simp
    have "q \<noteq> pre @ [n]" using None Cons.prems(2) by auto
    then have "map_of (AList.update (pre @ [n]) (Dir mode) t) q = Some v"
      using Cons.prems(2) by (simp add: update_conv)
    with Cons.IH [OF rec] show ?thesis .
  next
    case (Some nd)
    with Cons.prems show ?thesis
      by (cases nd) (auto dest: Cons.IH)
  qed
qed

lemma mkdirs_changes:
  "mkdirs pre ns mode t = Inr t' \<Longrightarrow>
     map_of t' q = map_of t q \<or> (map_of t q = None \<and> map_of t' q = Some (Dir mode))"
proof (induction ns arbitrary: pre t)
  case Nil
  then show ?case by simp
next
  case (Cons n ns)
  show ?case
  proof (cases "map_of t (pre @ [n])")
    case None
    with Cons.prems have rec: "mkdirs (pre @ [n]) ns mode (AList.update (pre @ [n]) (Dir mode) t) = Inr t'"
      by simp
    from Cons.IH [OF rec] show ?thesis
      using None by (auto simp: update_conv split: if_splits)
  next
    case (Some nd)
    with Cons.prems show ?thesis
      by (cases nd) (auto dest: Cons.IH)
  qed
qed

lemma mkdirs_target:
  "mkdirs pre ns mode t = Inr t' \<Longrightarrow> ns \<noteq> [] \<Longrightarrow> \<exists>m. map_of t' (pre @ ns) = Some (Dir m)"
proof (induction ns arbitrary: pre t)
  case Nil
  then show ?case by simp
next
  case (Cons n ns)
  show ?case
  proof (cases "ns = []")
    case True
    with Cons.prems show ?thesis
      by (auto simp: update_conv split: option.splits node.splits)
  next
    case False
    show ?thesis
    proof (cases "map_of t (pre @ [n])")
      case None
      with Cons.prems have rec: "mkdirs (pre @ [n]) ns mode (AList.update (pre @ [n]) (Dir mode) t) = Inr t'"
        by simp
      from Cons.IH [OF rec False] show ?thesis by simp
    next
      case (Some nd)
      with Cons.prems False show ?thesis
        by (cases nd) (auto dest: Cons.IH)
    qed
  qed
qed

lemma mkdirs_idem:
  "mkdirs pre ns mode t = Inr t' \<Longrightarrow> mkdirs pre ns mode t' = Inr t'"
proof (induction ns arbitrary: pre t)
  case Nil
  then show ?case by simp
next
  case (Cons n ns)
  show ?case
  proof (cases "map_of t (pre @ [n])")
    case None
    with Cons.prems have rec: "mkdirs (pre @ [n]) ns mode (AList.update (pre @ [n]) (Dir mode) t) = Inr t'"
      by simp
    have "map_of (AList.update (pre @ [n]) (Dir mode) t) (pre @ [n]) = Some (Dir mode)"
      by (simp add: update_conv)
    then have "map_of t' (pre @ [n]) = Some (Dir mode)"
      using mkdirs_preserves [OF rec] by blast
    then show ?thesis using Cons.IH [OF rec] by simp
  next
    case (Some nd)
    show ?thesis
    proof (cases nd)
      case (File c m)
      with Some Cons.prems show ?thesis by simp
    next
      case (Dir m)
      with Some Cons.prems have rec: "mkdirs (pre @ [n]) ns mode t = Inr t'" by simp
      have "map_of t' (pre @ [n]) = Some (Dir m)"
        using mkdirs_preserves [OF rec] Some Dir by blast
      then show ?thesis using Cons.IH [OF rec] by simp
    qed
  qed
qed

lemma mkdirSync_ok:
  assumes "mkdirSync p mode w = (Inr u, w')"
  shows "faults w OpMkdir p = None \<and> faults w' = faults w
     \<and> trace w' = trace w @ [Mkdir p mode]
     \<and> mkdirs [] p mode (files w) = Inr (files w')"
  using assms
  by (auto simp: mkdirSync_def fs_call_def fs_mkdir_def Let_def split: option.splits sum.splits)

lemma mkdir_ok:
  assumes "mkdir p mode w = (Inr u, w')"
  shows "faults w OpMkdir p = None \<and> faults w' = faults w
     \<and> trace w' = trace w @ [Mkdir p mode]
     \<and> mkdirs [] p mode (files w) = Inr (files w')"
  using assms
  by (auto simp: mkdir_def fs_call_def fs_mkdir_def Let_def split: option.splits sum.splits)

lemma is_dir_nonempty: "q \<noteq> [] \<Longrightarrow> is_dir t q \<longleftrightarrow> (\<exists>m. map_of t q = Some (Dir m))"
  by (auto simp: is_dir_def split: option.splits node.splits)

lemma mkdirs_noop:
  "\<forall>k<length ns. is_dir t (pre @ take (Suc k) ns) \<Longrightarrow> mkdirs pre ns mode t = Inr t"
proof (induction ns arbitrary: pre)
  case Nil
  then show ?case by simp
next
  case (Cons n ns)
  from Cons.prems have "is_dir t (pre @ take (Suc 0) (n # ns))" by blast
  then obtain m where m: "map_of t (pre @ [n]) = Some (Dir m)"
    by (auto simp: is_dir_nonempty)
  have "\<forall>k<length ns. is_dir t ((pre @ [n]) @ take (Suc k) ns)"
  proof (intro allI impI)
    fix k assume "k < length ns"
    then have "Suc k < length (n # ns)" by simp
    with Cons.prems have "is_dir t (pre @ take (Suc (Suc k)) (n # ns))" by blast
    then show "is_dir t ((pre @ [n]) @ take (Suc k) ns)" by simp
  qed
  from Cons.IH [OF this] show ?case using m by simp
qed

lemma mkdirs_chain:
  "mkdirs pre ns mode t = Inr t' \<Longrightarrow> k < length ns \<Longrightarrow> is_dir t' (pre @ take (Suc k) ns)"
proof (induction ns arbitrary: pre t k)
  case Nil
  then show ?case by simp
next
  case (Cons n ns)
  obtain t1 where rec: "mkdirs (pre @ [n]) ns mode t1 = Inr t'"
    and here: "\<exists>m. map_of t1 (pre @ [n]) = Some (Dir m)"
  proof (cases "map_of t (pre @ [n])")
    case None
    with Cons.prems(1)
    have "mkdirs (pre @ [n]) ns mode (AList.update (pre @ [n]) (Dir mode) t) = Inr t'" by simp
    moreover have "map_of (AList.update (pre @ [n]) (Dir mode) t) (pre @ [n]) = Some (Dir mode)"
      by (simp add: update_conv)
    ultimately show ?thesis using that by blast
  next
    case (Some nd)
    with Cons.prems(1) show ?thesis using that by (cases nd) auto
  qed
  show ?case
  proof (cases k)
    case 0
    from here obtain m where "map_of t1 (pre @ [n]) = Some (Dir m)" by blast
    from mkdirs_preserves [OF rec this] show ?thesis
      using 0 by (simp add: is_dir_nonempty)
  next
    case (Suc j)
    with Cons.prems(2) have "j < length ns" by simp
    from Cons.IH [OF rec this] show ?thesis using Suc by simp
  qed
qed

lemma dirs_exist_iff: "dirs_exist t p \<longleftrightarrow> (\<forall>k<length p. is_dir t (take (Suc k) p))"
  by (auto simp: dirs_exist_def list_all_iff)

lemma mkdirSync_existing:
  assumes "dirs_exist (files w) p" and "faults w OpMkdir p = None"
  shows "mkdirSync p mode w = (Inr (), w\<lparr>trace := trace w @ [Mkdir p mode]\<rparr>)"
proof -
  have "mkdirs [] p mode (files w) = Inr (files w)"
    using assms(1) mkdirs_noop [of p "files w" "[]" mode] by (simp add: dirs_exist_iff)
  then show ?thesis
    using assms(2) by (simp add: mkdirSync_def fs_call_def fs_mkdir_def Let_def)
qed

lemma mkdirSync_dirs_exist:
  assumes "mkdirSync p mode w = (Inr u, w')"
  shows "dirs_exist (files w') p"
  using mkdirSync_ok [OF assms] mkdirs_chain [of "[]" p mode "files w" "files w'"]
  by (simp add: dirs_exist_iff)

lemma writeFile_ok:
  assumes "writeFile p c mode w = (Inr u, w')"
  shows "faults w OpWrite p = None \<and> faults w' = faults w
     \<and> trace w' = trace w @ [WriteFile p c mode]
     \<and> (\<exists>m. map_of (files w') p = Some (File c m))
     \<and> (map_of (files w) p = None \<longrightarrow> map_of (files w') p = Some (File c mode))
     \<and> (\<forall>q. q \<noteq> p \<longrightarrow> map_of (files w') q = map_of (files w) q)"
  using assms
  by (auto simp: writeFile_def fs_call_def fs_write_def Let_def update_conv
           split: option.splits sum.splits node.splits if_splits)

lemma getTutanotaTempPath_ok:
  assumes "getTutanotaTempPath env this w = (Inr dir, w')"
  shows "dir = tempDir env @ [topLevelTempDir, randomDirectoryName this]
     \<and> mkdirSync dir 448 w = (Inr (), w')"
  using assms
  by (auto simp: getTutanotaTempPath_def Let_def split: prod.splits sum.splits)

lemma writeToDisk_ok:
  assumes "writeToDisk env this contents w = (Resolved file, w')"
  shows "\<exists>dir w2 w3.
       getTutanotaTempPath env this (record_event (RandomBytes 12) w) = (Inr dir, w2)
     \<and> mkdir (dir @ [''reg'']) defaultDirMode w2 = (Inr (), w3)
     \<and> file = dir @ [''reg'', uint8ArrayToHex (fst (randomBytes env 12 w))]
     \<and> writeFile file contents 256 w3 = (Inr (), w')"
  using assms
  by (auto simp: writeToDisk_def randomBytes_def Let_def split: prod.splits sum.splits)


lemma writeFile_ok_not_dir:
  assumes "writeFile p c mode w = (Inr u, w')"
  shows "map_of (files w) p \<noteq> Some (Dir m)"
  using assms
  by (auto simp: writeFile_def fs_call_def fs_write_def Let_def
           split: option.splits sum.splits node.splits if_splits)

lemma randomBytes_length: "length (fst (randomBytes env n w)) = n"
  by (simp add: randomBytes_def)

lemma getTutanotaTempPath_path:
  "getTutanotaTempPath env this w = (Inr dir, w1) \<Longrightarrow>
     dir = tempDir env @ [''tutanota'', randomDirectoryName this]"
  by (auto simp: getTutanotaTempPath_def topLevelTempDir_def Let_def split: prod.splits sum.splits)

subsection \<open>Facts about the encoders\<close>

lemma b64_in_alphabet: "b64 i \<in> set base64Alphabet"
proof -
  have "length base64Alphabet = 64" by (simp add: base64Alphabet_def)
  then show ?thesis by (simp add: b64_def)
qed

lemma uint8ArrayToBase64_chars:
  "set (uint8ArrayToBase64 bs) \<subseteq> insert (CHR ''='') (set base64Alphabet)"
  by (induction bs rule: uint8ArrayToBase64.induct) (auto simp: b64_in_alphabet)

lemma url_char:
  "c \<in> set base64Alphabet \<Longrightarrow>
     (if c = CHR ''+'' then CHR ''-'' else if c = CHR ''/'' then CHR ''_'' else c) \<in> set base64UrlAlphabet"
  by (auto simp: base64Alphabet_def base64UrlAlphabet_def)

lemma base64ToBase64Url_chars:
  "set s \<subseteq> insert (CHR ''='') (set base64Alphabet) \<Longrightarrow>
     set (base64ToBase64Url s) \<subseteq> set base64UrlAlphabet"
proof
  let ?f = "\<lambda>c. if c = CHR ''+'' then CHR ''-'' else if c = CHR ''/'' then CHR ''_'' else c"
  fix x assume s: "set s \<subseteq> insert (CHR ''='') (set base64Alphabet)"
    and x: "x \<in> set (base64ToBase64Url s)"
  have "set (base64ToBase64Url s) = {y \<in> ?f ` set s. y \<noteq> CHR ''=''}"
    by (simp only: base64ToBase64Url_def set_filter set_map)
  with x have "x \<in> ?f ` set s \<and> x \<noteq> CHR ''=''"
    by blast
  then obtain c where c: "c \<in> set s" and xc: "x = ?f c" and ne: "x \<noteq> CHR ''=''"
    by blast
  have "c \<noteq> CHR ''=''" using xc ne by auto
  with s c have "c \<in> set base64Alphabet" by auto
  from url_char [OF this] xc show "x \<in> set base64UrlAlphabet" by simp
qed

lemma random_name_chars:
  "set (base64ToBase64Url (uint8ArrayToBase64 bs)) \<subseteq> set base64UrlAlphabet"
  by (rule base64ToBase64Url_chars [OF uint8ArrayToBase64_chars])

lemma hex_chars:
  "set (uint8ArrayToHex bs) \<subseteq> set hexDigits"
proof -
  have "length hexDigits = 16" by (simp add: hexDigits_def)
  then have "hexDigits ! (n mod 16) \<in> set hexDigits" for n by simp
  moreover have "unat v div 16 < 16" for v :: "8 word"
  proof -
    have "unat v < 2 ^ LENGTH(8)" by (rule unsigned_less)
    then show ?thesis by simp
  qed
  ultimately show ?thesis
    by (auto simp: uint8ArrayToHex_def \<open>length hexDigits = 16\<close>)
qed

lemma hex_length: "length (uint8ArrayToHex bs) = 2 * length bs"
  by (induction bs) (simp_all add: uint8ArrayToHex_def)

subsection \<open>The scratch directory and the staged registry script\<close>

text \<open>
  Claim C6. The constructor draws 16 random bytes once and keeps their URL-safe base64
  encoding as \<open>randomDirectoryName\<close>. \<open>getTutanotaTempPath\<close> draws none: whenever it
  returns, it returns \<open>temp/tutanota/randomDirectoryName\<close> and has made the one call
  \<^verbatim>\<open>mkdirSync\<close>. After a call that returned, the directory and those above it exist, and
  a call in any world where they exist returns the same path and changes no file: the
  second call creates nothing.
\<close>

theorem scratch_directory_idempotent:
  fixes env :: env and this :: DesktopUtils
  defines "scratch \<equiv> tempDir env @ [''tutanota'', randomDirectoryName this]"
  shows
    "(new_DesktopUtils env w0 = (this0, w) \<longrightarrow>
        randomDirectoryName this0 =
          base64ToBase64Url (uint8ArrayToBase64 (fst (randomBytes env 16 w0)))
      \<and> length (fst (randomBytes env 16 w0)) = 16
      \<and> set (randomDirectoryName this0) \<subseteq> set base64UrlAlphabet
      \<and> trace w = trace w0 @ [RandomBytes 16] \<and> files w = files w0)
     \<and> (getTutanotaTempPath env this w = (Inr dir, w1) \<longrightarrow>
        dir = scratch
      \<and> trace w1 = trace w @ [Mkdir scratch 448]
      \<and> dirs_exist (files w1) scratch
      \<and> getTutanotaTempPath env this w1 =
          (Inr scratch, w1\<lparr>trace := trace w1 @ [Mkdir scratch 448]\<rparr>))
     \<and> (dirs_exist (files wa) scratch \<and> faults wa OpMkdir scratch = None \<longrightarrow>
        getTutanotaTempPath env this wa =
          (Inr scratch, wa\<lparr>trace := trace wa @ [Mkdir scratch 448]\<rparr>))"
proof -
  have ctor: "new_DesktopUtils env w0 = (this0, w) \<longrightarrow>
        randomDirectoryName this0 =
          base64ToBase64Url (uint8ArrayToBase64 (fst (randomBytes env 16 w0)))
      \<and> length (fst (randomBytes env 16 w0)) = 16
      \<and> set (randomDirectoryName this0) \<subseteq> set base64UrlAlphabet
      \<and> trace w = trace w0 @ [RandomBytes 16] \<and> files w = files w0"
  proof
    assume new: "new_DesktopUtils env w0 = (this0, w)"
    then have name: "randomDirectoryName this0 =
        base64ToBase64Url (uint8ArrayToBase64 (fst (randomBytes env 16 w0)))"
      and rest: "trace w = trace w0 @ [RandomBytes 16]" "files w = files w0"
      by (auto simp: new_DesktopUtils_def randomBytes_def record_event_def Let_def)
    have "set (randomDirectoryName this0) \<subseteq> set base64UrlAlphabet"
      unfolding name by (rule random_name_chars)
    with name rest randomBytes_length [of env 16 w0]
    show "randomDirectoryName this0 =
          base64ToBase64Url (uint8ArrayToBase64 (fst (randomBytes env 16 w0)))
      \<and> length (fst (randomBytes env 16 w0)) = 16
      \<and> set (randomDirectoryName this0) \<subseteq> set base64UrlAlphabet
      \<and> trace w = trace w0 @ [RandomBytes 16] \<and> files w = files w0"
      by (intro conjI)
  qed
  have existing: "getTutanotaTempPath env this wb =
          (Inr scratch, wb\<lparr>trace := trace wb @ [Mkdir scratch 448]\<rparr>)"
    if "dirs_exist (files wb) scratch" "faults wb OpMkdir scratch = None" for wb
    using mkdirSync_existing [OF that, of 448]
    by (simp add: getTutanotaTempPath_def scratch_def topLevelTempDir_def Let_def)
  have later: "dirs_exist (files wa) scratch \<and> faults wa OpMkdir scratch = None \<longrightarrow>
        getTutanotaTempPath env this wa =
          (Inr scratch, wa\<lparr>trace := trace wa @ [Mkdir scratch 448]\<rparr>)"
    using existing [of wa] by (intro impI) (elim conjE)
  have first: "getTutanotaTempPath env this w = (Inr dir, w1) \<longrightarrow>
        dir = scratch
      \<and> trace w1 = trace w @ [Mkdir scratch 448]
      \<and> dirs_exist (files w1) scratch
      \<and> getTutanotaTempPath env this w1 =
          (Inr scratch, w1\<lparr>trace := trace w1 @ [Mkdir scratch 448]\<rparr>)"
  proof
    assume run: "getTutanotaTempPath env this w = (Inr dir, w1)"
    from getTutanotaTempPath_ok [OF run]
    have d: "dir = scratch" and mk: "mkdirSync dir 448 w = (Inr (), w1)"
      by (auto simp: scratch_def topLevelTempDir_def)
    from mkdirSync_ok [OF mk] have nf: "faults w1 OpMkdir scratch = None"
      and tr: "trace w1 = trace w @ [Mkdir scratch 448]" by (simp_all add: d)
    from mkdirSync_dirs_exist [OF mk] have ch: "dirs_exist (files w1) scratch" by (simp add: d)
    from d tr ch existing [OF ch nf]
    show "dir = scratch
      \<and> trace w1 = trace w @ [Mkdir scratch 448]
      \<and> dirs_exist (files w1) scratch
      \<and> getTutanotaTempPath env this w1 =
          (Inr scratch, w1\<lparr>trace := trace w1 @ [Mkdir scratch 448]\<rparr>)"
      by (intro conjI)
  qed
  show ?thesis
    by (rule conjI [OF ctor conjI [OF first later]])
qed

lemma demo_later_world:
  "dirs_exist
     (files (snd (writeToDisk demo_env \<lparr>randomDirectoryName = ''AyA9WneUsc7rCCVCX3yZtg''\<rparr> ''register''
                    (snd (new_DesktopUtils demo_env demo_world)))))
     (tempDir demo_env @ [''tutanota'', randomDirectoryName \<lparr>randomDirectoryName = ''AyA9WneUsc7rCCVCX3yZtg''\<rparr>])
   \<and> faults (snd (writeToDisk demo_env \<lparr>randomDirectoryName = ''AyA9WneUsc7rCCVCX3yZtg''\<rparr> ''register''
                    (snd (new_DesktopUtils demo_env demo_world))))
       OpMkdir
       (tempDir demo_env @ [''tutanota'', randomDirectoryName \<lparr>randomDirectoryName = ''AyA9WneUsc7rCCVCX3yZtg''\<rparr>])
     = None"
  by code_simp

text \<open>
  The theorem on the demo installation: the name drawn by the constructor, the path of
  the first call, the second call with the same path and the same files, and a call
  after a registry script has been staged, which changes no file either.
\<close>

theorem scratch_directory_idempotent_witness:
  "fst (new_DesktopUtils demo_env demo_world) = \<lparr>randomDirectoryName = ''AyA9WneUsc7rCCVCX3yZtg''\<rparr>
   \<and> fst (getTutanotaTempPath demo_env (fst (new_DesktopUtils demo_env demo_world))
            (snd (new_DesktopUtils demo_env demo_world))) =
       Inr [''tmp'', ''tutanota'', ''AyA9WneUsc7rCCVCX3yZtg'']
   \<and> fst (getTutanotaTempPath demo_env (fst (new_DesktopUtils demo_env demo_world))
            (snd (getTutanotaTempPath demo_env (fst (new_DesktopUtils demo_env demo_world))
                    (snd (new_DesktopUtils demo_env demo_world))))) =
       Inr [''tmp'', ''tutanota'', ''AyA9WneUsc7rCCVCX3yZtg'']
   \<and> files (snd (getTutanotaTempPath demo_env (fst (new_DesktopUtils demo_env demo_world))
            (snd (getTutanotaTempPath demo_env (fst (new_DesktopUtils demo_env demo_world))
                    (snd (new_DesktopUtils demo_env demo_world)))))) =
     files (snd (getTutanotaTempPath demo_env (fst (new_DesktopUtils demo_env demo_world))
                    (snd (new_DesktopUtils demo_env demo_world))))
   \<and> files (snd (getTutanotaTempPath demo_env \<lparr>randomDirectoryName = ''AyA9WneUsc7rCCVCX3yZtg''\<rparr>
       (snd (writeToDisk demo_env \<lparr>randomDirectoryName = ''AyA9WneUsc7rCCVCX3yZtg''\<rparr> ''register''
                    (snd (new_DesktopUtils demo_env demo_world)))))) =
     files (snd (writeToDisk demo_env \<lparr>randomDirectoryName = ''AyA9WneUsc7rCCVCX3yZtg''\<rparr> ''register''
                    (snd (new_DesktopUtils demo_env demo_world))))"
proof -
  let ?obj = "\<lparr>randomDirectoryName = ''AyA9WneUsc7rCCVCX3yZtg''\<rparr>"
  note later = scratch_directory_idempotent
    [where env = demo_env and this = "\<lparr>randomDirectoryName = ''AyA9WneUsc7rCCVCX3yZtg''\<rparr>"
       and wa = "snd (writeToDisk demo_env \<lparr>randomDirectoryName = ''AyA9WneUsc7rCCVCX3yZtg''\<rparr> ''register''
                    (snd (new_DesktopUtils demo_env demo_world)))",
     THEN conjunct2, THEN conjunct2, rule_format, OF demo_later_world]
  let ?w = "snd (new_DesktopUtils demo_env demo_world)"
  let ?dir = "[''tmp'', ''tutanota'', ''AyA9WneUsc7rCCVCX3yZtg'']"
  let ?w1 = "snd (getTutanotaTempPath demo_env ?obj ?w)"
  note inst = scratch_directory_idempotent
    [where env = demo_env and ?w0.0 = demo_world and ?this0.0 = "fst (new_DesktopUtils demo_env demo_world)"
       and w = ?w and this = ?obj and dir = ?dir and ?w1.0 = ?w1]
  have made: "new_DesktopUtils demo_env demo_world = (fst (new_DesktopUtils demo_env demo_world), ?w)"
    by simp
  have "randomDirectoryName (fst (new_DesktopUtils demo_env demo_world)) =
      base64ToBase64Url (uint8ArrayToBase64 (fst (randomBytes demo_env 16 demo_world)))"
    using inst [THEN conjunct1, rule_format, OF made] by (rule conjunct1)
  then have name: "randomDirectoryName (fst (new_DesktopUtils demo_env demo_world)) =
      ''AyA9WneUsc7rCCVCX3yZtg''"
    by (simp only: demo_random_name)
  then have obj: "fst (new_DesktopUtils demo_env demo_world) = ?obj"
    by (cases "fst (new_DesktopUtils demo_env demo_world)") simp
  have sc: "tempDir demo_env @ [''tutanota'', randomDirectoryName ?obj] = ?dir"
    by (simp add: demo_env_def)
  have "getTutanotaTempPath demo_env ?obj ?w1 =
      (Inr (tempDir demo_env @ [''tutanota'', randomDirectoryName ?obj]),
       ?w1\<lparr>trace := trace ?w1 @ [Mkdir (tempDir demo_env @ [''tutanota'', randomDirectoryName ?obj]) 448]\<rparr>)"
    using inst [THEN conjunct2, THEN conjunct1, rule_format, OF pair_of_fst [OF demo_first_call],
        THEN conjunct2, THEN conjunct2, THEN conjunct2] .
  then have again: "getTutanotaTempPath demo_env ?obj ?w1 =
      (Inr ?dir, ?w1\<lparr>trace := trace ?w1 @ [Mkdir ?dir 448]\<rparr>)"
    by (simp only: sc)
  show ?thesis
    unfolding obj using demo_first_call again by (simp add: later)
qed

text \<open>
  Claim C7. A scratch directory that did not exist before \<open>getTutanotaTempPath\<close> has mode
  \<^verbatim>\<open>0o700\<close> afterwards, which has no bit for the group or for others. A staged script is
  at \<open>temp/tutanota/randomDirectoryName/reg/\<close> followed by the hexadecimal encoding of
  12 random bytes, 24 digits; when no file of that name existed it holds the script with mode
  \<^verbatim>\<open>0o400\<close>, which has no bit for the group or for others and no write bit for the owner.
\<close>

theorem new_artifacts_layout_and_permissions:
  "(getTutanotaTempPath env this w = (Inr dir, w1) \<and> map_of (files w) dir = None \<longrightarrow>
      map_of (files w1) dir = Some (Dir 448) \<and> group_other_bits 448 = 0)
   \<and> (writeToDisk env this contents w = (Resolved fp, w2) \<longrightarrow>
        fp = tempDir env @ [''tutanota'', randomDirectoryName this, ''reg'',
                            uint8ArrayToHex (fst (randomBytes env 12 w))]
      \<and> length (fst (randomBytes env 12 w)) = 12
      \<and> length (uint8ArrayToHex (fst (randomBytes env 12 w))) = 24
      \<and> set (uint8ArrayToHex (fst (randomBytes env 12 w))) \<subseteq> set hexDigits
      \<and> (map_of (files w) fp = None \<longrightarrow>
           map_of (files w2) fp = Some (File contents 256)
         \<and> group_other_bits 256 = 0 \<and> owner_write_bit 256 = 0))"
proof -
  have bits: "group_other_bits 448 = 0" "group_other_bits 256 = 0" "owner_write_bit 256 = 0"
    by (simp_all add: group_other_bits_def owner_write_bit_def)
  have scratch: "map_of (files w1) dir = Some (Dir 448)"
    if run: "getTutanotaTempPath env this w = (Inr dir, w1)" and new: "map_of (files w) dir = None"
  proof -
    from getTutanotaTempPath_ok [OF run]
    have d: "dir = tempDir env @ [topLevelTempDir, randomDirectoryName this]"
      and mk: "mkdirSync dir 448 w = (Inr (), w1)" by blast+
    from mkdirSync_ok [OF mk] have ms: "mkdirs [] dir 448 (files w) = Inr (files w1)" by simp
    have "dir \<noteq> []" using d by simp
    with mkdirs_target [OF ms] obtain m where "map_of (files w1) dir = Some (Dir m)" by auto
    with mkdirs_changes [OF ms, of dir] new show ?thesis by auto
  qed
  have staged: "fp = tempDir env @ [''tutanota'', randomDirectoryName this, ''reg'',
                            uint8ArrayToHex (fst (randomBytes env 12 w))]
      \<and> (map_of (files w) fp = None \<longrightarrow> map_of (files w2) fp = Some (File contents 256))"
    if run: "writeToDisk env this contents w = (Resolved fp, w2)"
  proof -
    from writeToDisk_ok [OF run] obtain d wa wb where
      g: "getTutanotaTempPath env this (record_event (RandomBytes 12) w) = (Inr d, wa)"
      and mk: "mkdir (d @ [''reg'']) defaultDirMode wa = (Inr (), wb)"
      and f: "fp = d @ [''reg'', uint8ArrayToHex (fst (randomBytes env 12 w))]"
      and wr: "writeFile fp contents 256 wb = (Inr (), w2)"
      by blast
    from getTutanotaTempPath_ok [OF g]
    have d: "d = tempDir env @ [topLevelTempDir, randomDirectoryName this]"
      and mk0: "mkdirSync d 448 (record_event (RandomBytes 12) w) = (Inr (), wa)" by blast+
    have layout: "fp = tempDir env @ [''tutanota'', randomDirectoryName this, ''reg'',
                            uint8ArrayToHex (fst (randomBytes env 12 w))]"
      using f d by (simp add: topLevelTempDir_def)
    have fresh: "map_of (files w2) fp = Some (File contents 256)" if new: "map_of (files w) fp = None"
    proof -
      from mkdirSync_ok [OF mk0]
      have m1: "mkdirs [] d 448 (files w) = Inr (files wa)" by (simp add: record_event_def)
      from mkdir_ok [OF mk]
      have m2: "mkdirs [] (d @ [''reg'']) defaultDirMode (files wa) = Inr (files wb)" by simp
      from mkdirs_changes [OF m1, of fp] new
      have a: "map_of (files wa) fp = None \<or> map_of (files wa) fp = Some (Dir 448)" by auto
      from mkdirs_changes [OF m2, of fp] a
      have "map_of (files wb) fp = None \<or> (\<exists>m. map_of (files wb) fp = Some (Dir m))" by auto
      with writeFile_ok_not_dir [OF wr] have "map_of (files wb) fp = None" by auto
      with writeFile_ok [OF wr] show ?thesis by simp
    qed
    from layout fresh show ?thesis by blast
  qed
  have name: "length (uint8ArrayToHex (fst (randomBytes env 12 w))) = 24"
    "set (uint8ArrayToHex (fst (randomBytes env 12 w))) \<subseteq> set hexDigits"
    by (simp_all add: hex_length hex_chars randomBytes_length)
  from bits scratch staged name randomBytes_length [of env 12 w] show ?thesis by blast
qed

text \<open>
  The theorem on the demo installation, where neither the scratch directory nor the
  staged file exists beforehand.
\<close>

theorem new_artifacts_layout_and_permissions_witness:
  "map_of (files demo_world) [''tmp'', ''tutanota'', ''x''] = None
   \<and> fst (getTutanotaTempPath demo_env \<lparr>randomDirectoryName = ''x''\<rparr> demo_world) =
       Inr [''tmp'', ''tutanota'', ''x'']
   \<and> map_of (files (snd (getTutanotaTempPath demo_env \<lparr>randomDirectoryName = ''x''\<rparr> demo_world)))
       [''tmp'', ''tutanota'', ''x''] = Some (Dir 448)
   \<and> fst (writeToDisk demo_env \<lparr>randomDirectoryName = ''x''\<rparr> ''register'' demo_world) =
       Resolved [''tmp'', ''tutanota'', ''x'', ''reg'', ''03203d5a7794b1ceeb082542'']
   \<and> map_of (files demo_world)
       [''tmp'', ''tutanota'', ''x'', ''reg'', ''03203d5a7794b1ceeb082542''] = None
   \<and> map_of (files (snd (writeToDisk demo_env \<lparr>randomDirectoryName = ''x''\<rparr> ''register'' demo_world)))
       [''tmp'', ''tutanota'', ''x'', ''reg'', ''03203d5a7794b1ceeb082542''] =
       Some (File ''register'' 256)"
  using new_artifacts_layout_and_permissions
    [where env = demo_env and this = "\<lparr>randomDirectoryName = ''x''\<rparr>" and w = demo_world
       and dir = "[''tmp'', ''tutanota'', ''x'']"
       and ?w1.0 = "snd (getTutanotaTempPath demo_env \<lparr>randomDirectoryName = ''x''\<rparr> demo_world)"
       and contents = "''register''"
       and fp = "[''tmp'', ''tutanota'', ''x'', ''reg'', ''03203d5a7794b1ceeb082542'']"
       and ?w2.0 = "snd (writeToDisk demo_env \<lparr>randomDirectoryName = ''x''\<rparr> ''register'' demo_world)"]
    pair_of_fst [OF demo_scratch_created] pair_of_fst [OF demo_staged]
    demo_scratch_absent demo_staged_absent demo_scratch_created demo_staged
  by blast


lemma unlinkSync_cases:
  "unlinkSync p w =
     (case faults w OpUnlink p of
        Some c \<Rightarrow> (Inl (SystemError c), w\<lparr>trace := trace w @ [Unlink p]\<rparr>)
      | None \<Rightarrow>
          (case map_of (files w) p of
             Some (File c m) \<Rightarrow>
               (Inr (), w\<lparr>trace := trace w @ [Unlink p], files := AList.delete p (files w)\<rparr>)
           | Some (Dir m) \<Rightarrow> (Inl (SystemError ''EISDIR''), w\<lparr>trace := trace w @ [Unlink p]\<rparr>)
           | None \<Rightarrow> (Inl (SystemError ''ENOENT''), w\<lparr>trace := trace w @ [Unlink p]\<rparr>)))"
  by (simp add: unlinkSync_def fs_call_def fs_unlink_def Let_def split: option.splits node.splits)

lemma exit_code_zero: "exit_code x = Some 0 \<longleftrightarrow> x = Exited 0"
  by (cases x) auto

text \<open>
  What \<open>executeRegistryScript\<close> does once the script is staged as \<open>fp\<close> (world \<open>w1\<close>): the
  file exists, and the next event in that world is the spawn of the helper. When the
  helper exits and \<^verbatim>\<open>unlinkSync\<close> returns, the file is gone and the promise resolves for
  exit code 0 and rejects with the one error for every other exit code and for a
  signal. When no \<^verbatim>\<open>exit\<close> event comes, or \<^verbatim>\<open>unlinkSync\<close> throws inside the listener, the
  promise is never settled and the file stays.
\<close>

lemma executeRegistryScript_outcomes:
  fixes env :: env and this :: DesktopUtils and w w1 :: world and fp :: path
  defines "w2 \<equiv> spawn ''reg.exe'' [Lit ''import'', PathArg fp] w1"
  assumes staged: "writeToDisk env this script w = (Resolved fp, w1)"
  shows
    "is_file (files w1) fp
     \<and> files w2 = files w1
     \<and> trace w2 = trace w1 @ [Spawn ''reg.exe'' [Lit ''import'', PathArg fp]]
     \<and> (helperExit env = NeverExits \<longrightarrow>
          executeRegistryScript env this script w = (Pending, w2))
     \<and> (helperExit env \<noteq> NeverExits \<and> faults w1 OpUnlink fp = None \<longrightarrow>
          executeRegistryScript env this script w =
            (if helperExit env = Exited 0 then Resolved ()
             else Rejected (Error ''couldn't execute registry script''),
             w2\<lparr>trace := trace w2 @ [Unlink fp], files := AList.delete fp (files w1)\<rparr>))
     \<and> (helperExit env \<noteq> NeverExits \<and> faults w1 OpUnlink fp \<noteq> None \<longrightarrow>
          executeRegistryScript env this script w =
            (Pending, w2\<lparr>trace := trace w2 @ [Unlink fp]\<rparr>))
     \<and> (fst (executeRegistryScript env this script w) \<noteq> Pending \<longrightarrow>
          \<not> exists_path (files (snd (executeRegistryScript env this script w))) fp)"
proof -
  obtain dir w3 where fdef: "fp = dir @ [''reg'', uint8ArrayToHex (fst (randomBytes env 12 w))]"
    and wr: "writeFile fp script 256 w3 = (Inr (), w1)"
    using writeToDisk_ok [OF staged] by blast
  from writeFile_ok [OF wr] obtain m where m: "map_of (files w1) fp = Some (File script m)"
    by blast
  then have isf: "is_file (files w1) fp"
    by (simp add: is_file_def)
  have ne: "fp \<noteq> []" using fdef by simp
  have w2: "files w2 = files w1" "faults w2 = faults w1"
    "trace w2 = trace w1 @ [Spawn ''reg.exe'' [Lit ''import'', PathArg fp]]"
    by (simp_all add: w2_def spawn_def record_event_def)
  have gone: "\<not> exists_path (AList.delete fp (files w1)) fp"
    using ne by (simp add: exists_path_def delete_conv)
  have never: "executeRegistryScript env this script w = (Pending, w2)"
    if "helperExit env = NeverExits"
    using staged that by (simp add: executeRegistryScript_def w2_def)
  have ok: "executeRegistryScript env this script w =
            (if helperExit env = Exited 0 then Resolved ()
             else Rejected (Error ''couldn't execute registry script''),
             w2\<lparr>trace := trace w2 @ [Unlink fp], files := AList.delete fp (files w1)\<rparr>)"
    if "helperExit env \<noteq> NeverExits" "faults w1 OpUnlink fp = None"
    using staged that m w2
    by (simp add: executeRegistryScript_def w2_def [symmetric] unlinkSync_cases exit_code_zero)
  have bad: "executeRegistryScript env this script w =
            (Pending, w2\<lparr>trace := trace w2 @ [Unlink fp]\<rparr>)"
    if "helperExit env \<noteq> NeverExits" "faults w1 OpUnlink fp \<noteq> None"
    using staged that m w2
    by (auto simp: executeRegistryScript_def w2_def [symmetric] unlinkSync_cases)
  have ret: "\<not> exists_path (files (snd (executeRegistryScript env this script w))) fp"
    if "fst (executeRegistryScript env this script w) \<noteq> Pending"
  proof (cases "helperExit env = NeverExits")
    case True
    with never that show ?thesis by simp
  next
    case False
    show ?thesis
    proof (cases "faults w1 OpUnlink fp")
      case None
      with ok False gone show ?thesis by simp
    next
      case (Some c)
      with bad False that show ?thesis by simp
    qed
  qed
  from isf w2 never ok bad ret show ?thesis by blast
qed


lemma demo_staged_hanging:
  "fst (writeToDisk (demo_env\<lparr>helperExit := NeverExits\<rparr>) \<lparr>randomDirectoryName = ''x''\<rparr>
          ''register'' demo_world) =
     Resolved [''tmp'', ''tutanota'', ''x'', ''reg'', ''03203d5a7794b1ceeb082542'']"
  by code_simp

lemma demo_staged_undeletable:
  "fst (writeToDisk demo_env \<lparr>randomDirectoryName = ''x''\<rparr> ''register''
          (demo_world\<lparr>faults := \<lambda>opn p. if opn = OpUnlink then Some ''EPERM'' else None\<rparr>)) =
     Resolved [''tmp'', ''tutanota'', ''x'', ''reg'', ''03203d5a7794b1ceeb082542'']"
  by code_simp

lemma demo_staged_undeletable_fault:
  "faults (snd (writeToDisk demo_env \<lparr>randomDirectoryName = ''x''\<rparr> ''register''
          (demo_world\<lparr>faults := \<lambda>opn p. if opn = OpUnlink then Some ''EPERM'' else None\<rparr>)))
     OpUnlink [''tmp'', ''tutanota'', ''x'', ''reg'', ''03203d5a7794b1ceeb082542''] \<noteq> None"
  by code_simp

text \<open>
  Claim C3 says that for every execution of a registry script the staged file is deleted
  once the helper has exited, both when the promise resolves (exit code 0) and when it
  rejects (any other exit code, a signal), so that the file never outlives its use. The
  code does this only inside the listener of the \<^verbatim>\<open>exit\<close> event, and only if \<^verbatim>\<open>unlinkSync\<close>
  returns. On the demo installation the helper exits with code 0; on a disk where the
  operating system refuses the unlink with \<^verbatim>\<open>EPERM\<close>, the script is staged, the helper is
  spawned and \<^verbatim>\<open>unlinkSync\<close> is called, and then the promise is never settled, neither
  resolved nor rejected, and the staged file is still there with its content. The same
  holds when no \<^verbatim>\<open>exit\<close> event is emitted at all. Where the unlink is not refused, the
  same execution resolves and the file is gone.
\<close>

theorem executeRegistryScript_leaves_staged_file:
  "helperExit demo_env = Exited 0
   \<and> fst (writeToDisk demo_env \<lparr>randomDirectoryName = ''x''\<rparr> ''register''
          (demo_world\<lparr>faults := \<lambda>opn p. if opn = OpUnlink then Some ''EPERM'' else None\<rparr>)) =
       Resolved [''tmp'', ''tutanota'', ''x'', ''reg'', ''03203d5a7794b1ceeb082542'']
   \<and> fst (executeRegistryScript demo_env \<lparr>randomDirectoryName = ''x''\<rparr> ''register''
          (demo_world\<lparr>faults := \<lambda>opn p. if opn = OpUnlink then Some ''EPERM'' else None\<rparr>)) = Pending
   \<and> trace (snd (executeRegistryScript demo_env \<lparr>randomDirectoryName = ''x''\<rparr> ''register''
          (demo_world\<lparr>faults := \<lambda>opn p. if opn = OpUnlink then Some ''EPERM'' else None\<rparr>))) =
       [RandomBytes 12,
        Mkdir [''tmp'', ''tutanota'', ''x''] 448,
        Mkdir [''tmp'', ''tutanota'', ''x'', ''reg''] 511,
        WriteFile [''tmp'', ''tutanota'', ''x'', ''reg'', ''03203d5a7794b1ceeb082542''] ''register'' 256,
        Spawn ''reg.exe''
          [Lit ''import'', PathArg [''tmp'', ''tutanota'', ''x'', ''reg'', ''03203d5a7794b1ceeb082542'']],
        Unlink [''tmp'', ''tutanota'', ''x'', ''reg'', ''03203d5a7794b1ceeb082542'']]
   \<and> map_of (files (snd (executeRegistryScript demo_env \<lparr>randomDirectoryName = ''x''\<rparr> ''register''
          (demo_world\<lparr>faults := \<lambda>opn p. if opn = OpUnlink then Some ''EPERM'' else None\<rparr>))))
       [''tmp'', ''tutanota'', ''x'', ''reg'', ''03203d5a7794b1ceeb082542''] =
       Some (File ''register'' 256)
   \<and> fst (executeRegistryScript (demo_env\<lparr>helperExit := NeverExits\<rparr>) \<lparr>randomDirectoryName = ''x''\<rparr>
            ''register'' demo_world) = Pending
   \<and> map_of (files (snd (executeRegistryScript (demo_env\<lparr>helperExit := NeverExits\<rparr>)
            \<lparr>randomDirectoryName = ''x''\<rparr> ''register'' demo_world)))
       [''tmp'', ''tutanota'', ''x'', ''reg'', ''03203d5a7794b1ceeb082542''] =
       Some (File ''register'' 256)
   \<and> fst (executeRegistryScript demo_env \<lparr>randomDirectoryName = ''x''\<rparr> ''register'' demo_world) =
       Resolved ()
   \<and> map_of (files (snd (executeRegistryScript demo_env \<lparr>randomDirectoryName = ''x''\<rparr> ''register''
          demo_world)))
       [''tmp'', ''tutanota'', ''x'', ''reg'', ''03203d5a7794b1ceeb082542''] = None"
proof -
  note undeletable = executeRegistryScript_outcomes [OF pair_of_fst [OF demo_staged_undeletable]]
  note hanging = executeRegistryScript_outcomes [OF pair_of_fst [OF demo_staged_hanging]]
  note ok = executeRegistryScript_outcomes [OF pair_of_fst [OF demo_staged]]
  have exits: "helperExit demo_env = Exited 0"
    "helperExit (demo_env\<lparr>helperExit := NeverExits\<rparr>) = NeverExits"
    by (simp_all add: demo_env_def)
  have refused: "fst (executeRegistryScript demo_env \<lparr>randomDirectoryName = ''x''\<rparr> ''register''
          (demo_world\<lparr>faults := \<lambda>opn p. if opn = OpUnlink then Some ''EPERM'' else None\<rparr>)) = Pending"
    using undeletable demo_staged_undeletable_fault exits(1) by simp
  have refused_trace: "trace (snd (executeRegistryScript demo_env \<lparr>randomDirectoryName = ''x''\<rparr> ''register''
          (demo_world\<lparr>faults := \<lambda>opn p. if opn = OpUnlink then Some ''EPERM'' else None\<rparr>))) =
       [RandomBytes 12,
        Mkdir [''tmp'', ''tutanota'', ''x''] 448,
        Mkdir [''tmp'', ''tutanota'', ''x'', ''reg''] 511,
        WriteFile [''tmp'', ''tutanota'', ''x'', ''reg'', ''03203d5a7794b1ceeb082542''] ''register'' 256,
        Spawn ''reg.exe''
          [Lit ''import'', PathArg [''tmp'', ''tutanota'', ''x'', ''reg'', ''03203d5a7794b1ceeb082542'']],
        Unlink [''tmp'', ''tutanota'', ''x'', ''reg'', ''03203d5a7794b1ceeb082542'']]"
    by code_simp
  have refused_file: "map_of (files (snd (executeRegistryScript demo_env \<lparr>randomDirectoryName = ''x''\<rparr>
          ''register''
          (demo_world\<lparr>faults := \<lambda>opn p. if opn = OpUnlink then Some ''EPERM'' else None\<rparr>))))
       [''tmp'', ''tutanota'', ''x'', ''reg'', ''03203d5a7794b1ceeb082542''] =
       Some (File ''register'' 256)"
    by code_simp
  have unstarted: "fst (executeRegistryScript (demo_env\<lparr>helperExit := NeverExits\<rparr>)
            \<lparr>randomDirectoryName = ''x''\<rparr> ''register'' demo_world) = Pending"
    using hanging exits(2) by simp
  have unstarted_file: "map_of (files (snd (executeRegistryScript (demo_env\<lparr>helperExit := NeverExits\<rparr>)
            \<lparr>randomDirectoryName = ''x''\<rparr> ''register'' demo_world)))
       [''tmp'', ''tutanota'', ''x'', ''reg'', ''03203d5a7794b1ceeb082542''] =
       Some (File ''register'' 256)"
    by code_simp
  have allowed: "fst (executeRegistryScript demo_env \<lparr>randomDirectoryName = ''x''\<rparr> ''register''
          demo_world) = Resolved ()"
    using ok demo_staged_unlink_allowed exits(1) by simp
  have allowed_file: "map_of (files (snd (executeRegistryScript demo_env \<lparr>randomDirectoryName = ''x''\<rparr>
          ''register'' demo_world)))
       [''tmp'', ''tutanota'', ''x'', ''reg'', ''03203d5a7794b1ceeb082542''] = None"
    by code_simp
  from exits(1) demo_staged_undeletable refused refused_trace refused_file unstarted unstarted_file
    allowed allowed_file
  show ?thesis by (intro conjI)
qed


subsection \<open>The sweep of the temp directory\<close>

lemma rmSync_cases:
  "rmSync p w =
     (case faults w OpRm p of
        Some c \<Rightarrow> (Inl (SystemError c), w\<lparr>trace := trace w @ [Rm p]\<rparr>)
      | None \<Rightarrow>
          if map_of (files w) p = None
          then (Inl (SystemError ''ENOENT''), w\<lparr>trace := trace w @ [Rm p]\<rparr>)
          else (Inr (),
                w\<lparr>trace := trace w @ [Rm p],
                  files := filter (\<lambda>(q, n). \<not> prefix p q) (files w)\<rparr>))"
  by (simp add: rmSync_def fs_call_def fs_rm_def Let_def split: option.splits)

lemma map_of_filter_keys_None:
  "\<not> P k \<Longrightarrow> map_of (filter (\<lambda>(q, n). P q) t) k = None"
  by (induction t) auto

lemma map_of_filter_keeps_None:
  "map_of t k = None \<Longrightarrow> map_of (filter Q t) k = None"
  by (induction t) (auto split: if_splits)

lemma map_of_filter_keys_same:
  "P k \<Longrightarrow> map_of (filter (\<lambda>(q, n). P q) t) k = map_of t k"
  by (induction t) auto

lemma rmSync_frame:
  "faults (snd (rmSync p w)) = faults w
   \<and> trace (snd (rmSync p w)) = trace w @ [Rm p]
   \<and> (map_of (files w) q = None \<longrightarrow> map_of (files (snd (rmSync p w))) q = None)
   \<and> (\<not> prefix p q \<longrightarrow> map_of (files (snd (rmSync p w))) q = map_of (files w) q)"
  by (auto simp: rmSync_cases map_of_filter_keeps_None
        map_of_filter_keys_same [where P = "\<lambda>q. \<not> prefix p q"] split: option.splits)

lemma rmSync_removes:
  assumes "faults w OpRm p = None" and "map_of (files w) p \<noteq> None" and "prefix p q"
  shows "map_of (files (snd (rmSync p w))) q = None"
  using assms map_of_filter_keys_None [where P = "\<lambda>q. \<not> prefix p q" and k = q]
  by (auto simp: rmSync_cases)

lemma rmSync_result:
  "fst (rmSync p w) = Inr ()
   \<or> (\<exists>c. fst (rmSync p w) = Inl (SystemError c) \<and> (faults w OpRm p = Some c \<or> c = ''ENOENT''))"
  by (auto simp: rmSync_cases split: option.splits)

lemma purge_entries_step:
  "purge_entries tdir (tmp # tmps) w =
     (case fst (rmSync (tdir @ [tmp]) w) of
        Inl e \<Rightarrow>
          if code e \<noteq> Some ''ENOENT'' \<and> code e \<noteq> Some ''EACCES''
          then (Inl e, snd (rmSync (tdir @ [tmp]) w))
          else purge_entries tdir tmps (snd (rmSync (tdir @ [tmp]) w))
      | Inr u \<Rightarrow> purge_entries tdir tmps (snd (rmSync (tdir @ [tmp]) w)))"
  by (simp add: Let_def split: prod.splits sum.splits)

lemma purge_entries_harmless:
  assumes "\<forall>n \<in> set tmps. harmless (faults w OpRm (tdir @ [n]))"
  shows "fst (purge_entries tdir tmps w) = Inr ()
     \<and> trace (snd (purge_entries tdir tmps w)) = trace w @ map (\<lambda>n. Rm (tdir @ [n])) tmps
     \<and> faults (snd (purge_entries tdir tmps w)) = faults w"
  using assms
proof (induction tmps arbitrary: w)
  case Nil
  then show ?case by simp
next
  case (Cons tmp tmps)
  let ?w1 = "snd (rmSync (tdir @ [tmp]) w)"
  have fr: "faults ?w1 = faults w" "trace ?w1 = trace w @ [Rm (tdir @ [tmp])]"
    using rmSync_frame [of "tdir @ [tmp]" w] by simp_all
  have h: "harmless (faults w OpRm (tdir @ [tmp]))" using Cons.prems by simp
  have rest: "\<forall>n \<in> set tmps. harmless (faults ?w1 OpRm (tdir @ [n]))"
    using Cons.prems fr by simp
  have go: "purge_entries tdir (tmp # tmps) w = purge_entries tdir tmps ?w1"
    using rmSync_result [of "tdir @ [tmp]" w] h
    by (auto simp: purge_entries_step harmless_def simp del: purge_entries.simps)
  show ?case
    using Cons.IH [OF rest] fr by (simp add: go del: purge_entries.simps)
qed

lemma purge_entries_fatal:
  assumes "\<forall>n \<in> set pre. harmless (faults w OpRm (tdir @ [n]))"
    and "faults w OpRm (tdir @ [x]) = Some c" and "c \<noteq> ''ENOENT''" and "c \<noteq> ''EACCES''"
  shows "fst (purge_entries tdir (pre @ x # post) w) = Inl (SystemError c)
     \<and> trace (snd (purge_entries tdir (pre @ x # post) w)) =
         trace w @ map (\<lambda>n. Rm (tdir @ [n])) (pre @ [x])"
  using assms
proof (induction pre arbitrary: w)
  case Nil
  then show ?case
    by (simp add: rmSync_cases)
next
  case (Cons tmp pre)
  let ?w1 = "snd (rmSync (tdir @ [tmp]) w)"
  have fr: "faults ?w1 = faults w" "trace ?w1 = trace w @ [Rm (tdir @ [tmp])]"
    using rmSync_frame [of "tdir @ [tmp]" w] by simp_all
  have h: "harmless (faults w OpRm (tdir @ [tmp]))" using Cons.prems by simp
  have rest: "\<forall>n \<in> set pre. harmless (faults ?w1 OpRm (tdir @ [n]))"
    using Cons.prems fr by simp
  have go: "purge_entries tdir (tmp # pre @ x # post) w = purge_entries tdir (pre @ x # post) ?w1"
    using rmSync_result [of "tdir @ [tmp]" w] h
    by (auto simp: purge_entries_step harmless_def simp del: purge_entries.simps)
  have "faults ?w1 OpRm (tdir @ [x]) = Some c" using Cons.prems fr by simp
  from Cons.IH [OF rest this Cons.prems(3,4)] show ?case
    using fr by (simp add: go del: purge_entries.simps)
qed

lemma purge_entries_keeps_None:
  "map_of (files w) q = None \<Longrightarrow> map_of (files (snd (purge_entries tdir tmps w))) q = None"
proof (induction tmps arbitrary: w)
  case Nil
  then show ?case by simp
next
  case (Cons tmp tmps)
  let ?w1 = "snd (rmSync (tdir @ [tmp]) w)"
  have "map_of (files ?w1) q = None"
    using rmSync_frame [of "tdir @ [tmp]" w q] Cons.prems by simp
  from Cons.IH [OF this] show ?case
    using Cons.prems rmSync_frame [of "tdir @ [tmp]" w q]
    by (auto simp: purge_entries_step simp del: purge_entries.simps split: sum.splits)
qed

lemma purge_entries_frame:
  "\<not> strict_prefix tdir q \<Longrightarrow>
     map_of (files (snd (purge_entries tdir tmps w))) q = map_of (files w) q"
proof (induction tmps arbitrary: w)
  case Nil
  then show ?case by simp
next
  case (Cons tmp tmps)
  let ?w1 = "snd (rmSync (tdir @ [tmp]) w)"
  have np: "\<not> prefix (tdir @ [tmp]) q"
    using Cons.prems by (auto simp: prefix_def strict_prefix_def)
  have "map_of (files ?w1) q = map_of (files w) q"
    using rmSync_frame [of "tdir @ [tmp]" w q] np by simp
  with Cons.IH [OF Cons.prems, of ?w1] show ?case
    by (auto simp: purge_entries_step simp del: purge_entries.simps split: sum.splits)
qed

lemma purge_entries_removes:
  assumes "n \<in> set tmps"
    and "\<forall>n \<in> set tmps. harmless (faults w OpRm (tdir @ [n]))"
    and "faults w OpRm (tdir @ [n]) = None"
    and "map_of (files w) (tdir @ [n]) \<noteq> None"
    and "prefix (tdir @ [n]) q"
  shows "map_of (files (snd (purge_entries tdir tmps w))) q = None"
  using assms
proof (induction tmps arbitrary: w)
  case Nil
  then show ?case by simp
next
  case (Cons tmp tmps)
  let ?w1 = "snd (rmSync (tdir @ [tmp]) w)"
  have fr: "faults ?w1 = faults w"
    using rmSync_frame [of "tdir @ [tmp]" w] by simp
  have h: "harmless (faults w OpRm (tdir @ [tmp]))" using Cons.prems by simp
  have rest: "\<forall>n \<in> set tmps. harmless (faults ?w1 OpRm (tdir @ [n]))"
    using Cons.prems fr by simp
  have go: "purge_entries tdir (tmp # tmps) w = purge_entries tdir tmps ?w1"
    using rmSync_result [of "tdir @ [tmp]" w] h
    by (auto simp: purge_entries_step harmless_def simp del: purge_entries.simps)
  show ?case
  proof (cases "tmp = n")
    case True
    have "map_of (files ?w1) q = None"
      using rmSync_removes [of w "tdir @ [n]" q] Cons.prems True by simp
    then show ?thesis
      by (simp add: go purge_entries_keeps_None del: purge_entries.simps)
  next
    case False
    then have mem: "n \<in> set tmps" using Cons.prems by simp
    have "\<not> prefix (tdir @ [tmp]) (tdir @ [n])" using False by simp
    then have ex: "map_of (files ?w1) (tdir @ [n]) \<noteq> None"
      using rmSync_frame [of "tdir @ [tmp]" w "tdir @ [n]"] Cons.prems(4) by simp
    have nf: "faults ?w1 OpRm (tdir @ [n]) = None" using fr Cons.prems(3) by simp
    from Cons.IH [OF mem rest nf ex Cons.prems(5)] show ?thesis
      by (simp add: go del: purge_entries.simps)
  qed
qed

lemma children_exist:
  "n \<in> set (children t d) \<Longrightarrow> map_of t (d @ [n]) \<noteq> None"
proof -
  assume "n \<in> set (children t d)"
  then obtain q nd where "(q, nd) \<in> set t" "q \<noteq> []" "butlast q = d" "last q = n"
    by (auto simp: children_def)
  then have "(d @ [n], nd) \<in> set t"
    using append_butlast_last_id [of q] by auto
  then show ?thesis
    by (metis map_of_eq_None_iff fst_conv image_eqI)
qed

lemma children_complete:
  "map_of t (d @ [n]) \<noteq> None \<Longrightarrow> n \<in> set (children t d)"
proof -
  assume "map_of t (d @ [n]) \<noteq> None"
  then obtain nd where "(d @ [n], nd) \<in> set t"
    by (auto dest: map_of_SomeD)
  then show ?thesis
    by (force simp: children_def)
qed

lemma readdirSync_cases:
  "readdirSync d w =
     (case faults w OpReaddir d of
        Some c \<Rightarrow> (Inl (SystemError c), w\<lparr>trace := trace w @ [Readdir d]\<rparr>)
      | None \<Rightarrow>
          if is_dir (files w) d then (Inr (children (files w) d), w\<lparr>trace := trace w @ [Readdir d]\<rparr>)
          else if is_file (files w) d
          then (Inl (SystemError ''ENOTDIR''), w\<lparr>trace := trace w @ [Readdir d]\<rparr>)
          else (Inl (SystemError ''ENOENT''), w\<lparr>trace := trace w @ [Readdir d]\<rparr>))"
  by (simp add: readdirSync_def fs_call_def fs_readdir_def Let_def split: option.splits)


lemma outer_catch_cases:
  "outer_catch (Inr u, w) = (Inr (), w)"
  "outer_catch (Inl (SystemError c), w) = (if c = ''ENOENT'' then (Inr (), w) else (Inl (SystemError c), w))"
  by (simp_all add: outer_catch_def)

lemma deleteTutanotaTempDir_listed:
  assumes "faults w OpReaddir (tempDir env @ [''tutanota'']) = None"
    and "is_dir (files w) (tempDir env @ [''tutanota''])"
  shows "deleteTutanotaTempDir env w =
     outer_catch (purge_entries (tempDir env @ [''tutanota''])
       (children (files w) (tempDir env @ [''tutanota'']))
       (w\<lparr>trace := trace w @ [Readdir (tempDir env @ [''tutanota''])]\<rparr>))"
  using assms
  by (simp add: deleteTutanotaTempDir_def topLevelTempDir_def readdirSync_cases Let_def)

text \<open>
  Claim C4. \<open>deleteTutanotaTempDir\<close> lists the entries directly under \<open>temp/tutanota\<close>
  and calls \<^verbatim>\<open>rmSync\<close> on each in turn. When every failure on an entry is \<^verbatim>\<open>ENOENT\<close> or
  \<^verbatim>\<open>EACCES\<close>, it returns normally after a call for every entry, each entry whose removal
  was not failed is gone with all below it, and nothing outside the directory has
  changed. The first entry that fails with any other code ends the sweep with that
  error, after the calls for the entries before it and for itself. When the directory
  does not exist, or listing it fails with \<^verbatim>\<open>ENOENT\<close>, it returns normally after the
  listing alone.
\<close>

theorem deleteTutanotaTempDir_sweep:
  fixes env :: env and w :: world
  defines "tdir \<equiv> tempDir env @ [''tutanota'']"
  defines "tmps \<equiv> children (files w) tdir"
  defines "r \<equiv> deleteTutanotaTempDir env w"
  shows
    "(faults w OpReaddir tdir = None \<and> is_dir (files w) tdir
        \<and> (\<forall>n \<in> set tmps. harmless (faults w OpRm (tdir @ [n]))) \<longrightarrow>
          fst r = Inr ()
        \<and> trace (snd r) = trace w @ Readdir tdir # map (\<lambda>n. Rm (tdir @ [n])) tmps
        \<and> (\<forall>n \<in> set tmps. faults w OpRm (tdir @ [n]) = None \<longrightarrow>
              (\<forall>q. prefix (tdir @ [n]) q \<longrightarrow> map_of (files (snd r)) q = None))
        \<and> (\<forall>q. \<not> strict_prefix tdir q \<longrightarrow> map_of (files (snd r)) q = map_of (files w) q))
     \<and> (faults w OpReaddir tdir = None \<and> is_dir (files w) tdir
        \<and> tmps = pre @ x # post
        \<and> (\<forall>n \<in> set pre. harmless (faults w OpRm (tdir @ [n])))
        \<and> faults w OpRm (tdir @ [x]) = Some c \<and> c \<noteq> ''ENOENT'' \<and> c \<noteq> ''EACCES'' \<longrightarrow>
          fst r = Inl (SystemError c)
        \<and> trace (snd r) = trace w @ Readdir tdir # map (\<lambda>n. Rm (tdir @ [n])) (pre @ [x]))
     \<and> ((faults w OpReaddir tdir = None \<and> \<not> exists_path (files w) tdir)
        \<or> faults w OpReaddir tdir = Some ''ENOENT'' \<longrightarrow>
          r = (Inr (), w\<lparr>trace := trace w @ [Readdir tdir]\<rparr>))"
proof -
  let ?w0 = "w\<lparr>trace := trace w @ [Readdir tdir]\<rparr>"
  have listed: "r = outer_catch (purge_entries tdir tmps ?w0)"
    if "faults w OpReaddir tdir = None" "is_dir (files w) tdir"
    using deleteTutanotaTempDir_listed [of w env] that by (simp add: r_def tdir_def tmps_def)
  have a: "fst r = Inr ()
        \<and> trace (snd r) = trace w @ Readdir tdir # map (\<lambda>n. Rm (tdir @ [n])) tmps
        \<and> (\<forall>n \<in> set tmps. faults w OpRm (tdir @ [n]) = None \<longrightarrow>
              (\<forall>q. prefix (tdir @ [n]) q \<longrightarrow> map_of (files (snd r)) q = None))
        \<and> (\<forall>q. \<not> strict_prefix tdir q \<longrightarrow> map_of (files (snd r)) q = map_of (files w) q)"
    if H: "faults w OpReaddir tdir = None \<and> is_dir (files w) tdir
        \<and> (\<forall>n \<in> set tmps. harmless (faults w OpRm (tdir @ [n])))"
  proof -
    from H have rd: "faults w OpReaddir tdir = None" "is_dir (files w) tdir"
      and h: "\<forall>n \<in> set tmps. harmless (faults w OpRm (tdir @ [n]))" by simp_all
    have h0: "\<forall>n \<in> set tmps. harmless (faults ?w0 OpRm (tdir @ [n]))" using h by simp
    from purge_entries_harmless [OF h0]
    have p: "fst (purge_entries tdir tmps ?w0) = Inr ()"
      "trace (snd (purge_entries tdir tmps ?w0)) = trace w @ Readdir tdir # map (\<lambda>n. Rm (tdir @ [n])) tmps"
      by simp_all
    have eq: "r = (Inr (), snd (purge_entries tdir tmps ?w0))"
      using listed [OF rd] p(1)
      by (cases "purge_entries tdir tmps ?w0") (simp add: outer_catch_cases)
    have gone: "map_of (files (snd r)) q = None"
      if "n \<in> set tmps" "faults w OpRm (tdir @ [n]) = None" "prefix (tdir @ [n]) q" for n q
    proof -
      have "map_of (files ?w0) (tdir @ [n]) \<noteq> None"
        using children_exist [of n "files w" tdir] that(1) by (simp add: tmps_def)
      moreover have "faults ?w0 OpRm (tdir @ [n]) = None" using that(2) by simp
      ultimately show ?thesis
        using purge_entries_removes [OF that(1) h0 _ _ that(3)] by (simp add: eq)
    qed
    have frame: "map_of (files (snd r)) q = map_of (files w) q" if "\<not> strict_prefix tdir q" for q
      using purge_entries_frame [OF that, of tmps ?w0] by (simp add: eq)
    from eq p(2) gone frame show ?thesis by simp
  qed
  have b: "fst r = Inl (SystemError c)
        \<and> trace (snd r) = trace w @ Readdir tdir # map (\<lambda>n. Rm (tdir @ [n])) (pre @ [x])"
    if H: "faults w OpReaddir tdir = None \<and> is_dir (files w) tdir
        \<and> tmps = pre @ x # post
        \<and> (\<forall>n \<in> set pre. harmless (faults w OpRm (tdir @ [n])))
        \<and> faults w OpRm (tdir @ [x]) = Some c \<and> c \<noteq> ''ENOENT'' \<and> c \<noteq> ''EACCES''"
  proof -
    from H have rd: "faults w OpReaddir tdir = None" "is_dir (files w) tdir"
      and sp: "tmps = pre @ x # post"
      and h: "\<forall>n \<in> set pre. harmless (faults w OpRm (tdir @ [n]))"
      and f: "faults w OpRm (tdir @ [x]) = Some c" "c \<noteq> ''ENOENT''" "c \<noteq> ''EACCES''"
      by blast+
    have h0: "\<forall>n \<in> set pre. harmless (faults ?w0 OpRm (tdir @ [n]))" using h by simp
    have f0: "faults ?w0 OpRm (tdir @ [x]) = Some c" using f by simp
    from purge_entries_fatal [OF h0 f0 f(2,3), of post]
    have p: "fst (purge_entries tdir tmps ?w0) = Inl (SystemError c)"
      "trace (snd (purge_entries tdir tmps ?w0)) =
         trace w @ Readdir tdir # map (\<lambda>n. Rm (tdir @ [n])) (pre @ [x])"
      by (simp_all add: sp)
    have "r = (Inl (SystemError c), snd (purge_entries tdir tmps ?w0))"
      using listed [OF rd] p(1) f(2)
      by (cases "purge_entries tdir tmps ?w0") (simp add: outer_catch_cases)
    with p(2) show ?thesis by simp
  qed
  have c: "r = (Inr (), ?w0)"
    if "(faults w OpReaddir tdir = None \<and> \<not> exists_path (files w) tdir)
        \<or> faults w OpReaddir tdir = Some ''ENOENT''"
    using that
    by (auto simp: r_def tdir_def deleteTutanotaTempDir_def topLevelTempDir_def readdirSync_cases
          Let_def outer_catch_def exists_path_def is_dir_def is_file_def
          split: option.splits node.splits)
  show ?thesis
    apply (rule conjI [OF impI conjI [OF impI impI]])
      apply (erule a)
     apply (erule b)
    apply (erule c)
    done
qed

text \<open>
  The theorem on a disk with the entries \<open>a\<close>, \<open>b\<close> and \<open>c\<close>: with \<^verbatim>\<open>EACCES\<close> on \<open>b\<close> the
  sweep goes on to \<open>c\<close> and returns normally; with \<^verbatim>\<open>EBUSY\<close> on \<open>b\<close> it throws after \<open>b\<close>;
  and on the disk without the directory it returns normally.
\<close>

theorem deleteTutanotaTempDir_sweep_witness:
  "fst (deleteTutanotaTempDir demo_env (purge_world ''EACCES'')) = Inr ()
   \<and> trace (snd (deleteTutanotaTempDir demo_env (purge_world ''EACCES''))) =
       [Readdir [''tmp'', ''tutanota''], Rm [''tmp'', ''tutanota'', ''a''],
        Rm [''tmp'', ''tutanota'', ''b''], Rm [''tmp'', ''tutanota'', ''c'']]
   \<and> map_of (files (snd (deleteTutanotaTempDir demo_env (purge_world ''EACCES''))))
       [''tmp'', ''tutanota'', ''a'', ''f''] = None
   \<and> map_of (files (snd (deleteTutanotaTempDir demo_env (purge_world ''EACCES''))))
       [''tmp'', ''tutanota'', ''c''] = None
   \<and> fst (deleteTutanotaTempDir demo_env (purge_world ''EBUSY'')) = Inl (SystemError ''EBUSY'')
   \<and> trace (snd (deleteTutanotaTempDir demo_env (purge_world ''EBUSY''))) =
       [Readdir [''tmp'', ''tutanota''], Rm [''tmp'', ''tutanota'', ''a''],
        Rm [''tmp'', ''tutanota'', ''b'']]
   \<and> deleteTutanotaTempDir demo_env demo_world =
       (Inr (), demo_world\<lparr>trace := [Readdir [''tmp'', ''tutanota'']]\<rparr>)"
proof -
  have td: "tempDir demo_env = [''tmp'']" by (simp add: demo_env_def)
  have swallowed: "\<forall>n \<in> set [''a'', ''b'', ''c''].
      harmless (faults (purge_world ''EACCES'') OpRm ([''tmp'', ''tutanota''] @ [n]))"
    by (simp add: purge_world_def harmless_def)
  have before: "\<forall>n \<in> set [''a''].
      harmless (faults (purge_world ''EBUSY'') OpRm ([''tmp'', ''tutanota''] @ [n]))"
    by (simp add: purge_world_def harmless_def)
  have busy: "faults (purge_world ''EBUSY'') OpRm ([''tmp'', ''tutanota''] @ [''b'']) = Some ''EBUSY''"
    by (simp add: purge_world_def)
  have free: "faults (purge_world ''EACCES'') OpRm ([''tmp'', ''tutanota''] @ [''a'']) = None"
    "faults (purge_world ''EACCES'') OpRm ([''tmp'', ''tutanota''] @ [''c'']) = None"
    by (simp_all add: purge_world_def)
  have absent: "faults demo_world OpReaddir [''tmp'', ''tutanota''] = None
      \<and> \<not> exists_path (files demo_world) [''tmp'', ''tutanota'']"
    by (simp add: demo_world_def no_faults_def exists_path_def)
  note sw = deleteTutanotaTempDir_sweep [where env = demo_env and w = "purge_world ''EACCES''"]
  note fa = deleteTutanotaTempDir_sweep
    [where env = demo_env and w = "purge_world ''EBUSY''" and pre = "[''a'']" and x = "''b''"
       and post = "[''c'']" and c = "''EBUSY''"]
  note ab = deleteTutanotaTempDir_sweep [where env = demo_env and w = demo_world]
  have 1: "fst (deleteTutanotaTempDir demo_env (purge_world ''EACCES'')) = Inr ()
      \<and> trace (snd (deleteTutanotaTempDir demo_env (purge_world ''EACCES''))) =
          [Readdir [''tmp'', ''tutanota''], Rm [''tmp'', ''tutanota'', ''a''],
           Rm [''tmp'', ''tutanota'', ''b''], Rm [''tmp'', ''tutanota'', ''c'']]
      \<and> map_of (files (snd (deleteTutanotaTempDir demo_env (purge_world ''EACCES''))))
          [''tmp'', ''tutanota'', ''a'', ''f''] = None
      \<and> map_of (files (snd (deleteTutanotaTempDir demo_env (purge_world ''EACCES''))))
          [''tmp'', ''tutanota'', ''c''] = None"
    using sw swallowed free purge_world_listable [of "''EACCES''"] purge_world_children [of "''EACCES''"]
    by (simp add: td) (simp add: purge_world_def)
  have 2: "fst (deleteTutanotaTempDir demo_env (purge_world ''EBUSY'')) = Inl (SystemError ''EBUSY'')
      \<and> trace (snd (deleteTutanotaTempDir demo_env (purge_world ''EBUSY''))) =
          [Readdir [''tmp'', ''tutanota''], Rm [''tmp'', ''tutanota'', ''a''],
           Rm [''tmp'', ''tutanota'', ''b'']]"
    using fa before busy purge_world_listable [of "''EBUSY''"] purge_world_children [of "''EBUSY''"]
    by (simp add: td) (simp add: purge_world_def)
  have 3: "deleteTutanotaTempDir demo_env demo_world =
       (Inr (), demo_world\<lparr>trace := [Readdir [''tmp'', ''tutanota'']]\<rparr>)"
    using ab absent by (simp add: td) (simp add: demo_world_def)
  from 1 2 3 show ?thesis by simp
qed


text \<open>
  Claim C10. The sweep does not look at \<open>randomDirectoryName\<close>: when the scratch directory
  of the calling process exists, it is one of the entries listed, \<^verbatim>\<open>rmSync\<close> is called on
  it, and unless the operating system fails that call or ends the sweep before it, the
  directory and everything below it is gone afterwards.
\<close>

theorem deleteTutanotaTempDir_removes_own_scratch_dir:
  fixes env :: env and this :: DesktopUtils and w :: world
  defines "tdir \<equiv> tempDir env @ [''tutanota'']"
  defines "own \<equiv> tempDir env @ [''tutanota'', randomDirectoryName this]"
  defines "r \<equiv> deleteTutanotaTempDir env w"
  assumes "is_dir (files w) tdir" and "map_of (files w) own \<noteq> None"
    and "faults w OpReaddir tdir = None"
    and "\<forall>n \<in> set (children (files w) tdir). harmless (faults w OpRm (tdir @ [n]))"
    and "faults w OpRm own = None"
  shows "randomDirectoryName this \<in> set (children (files w) tdir)
     \<and> fst r = Inr ()
     \<and> Rm own \<in> set (trace (snd r))
     \<and> (\<forall>q. prefix own q \<longrightarrow> map_of (files (snd r)) q = None)"
proof -
  let ?w0 = "w\<lparr>trace := trace w @ [Readdir tdir]\<rparr>"
  let ?tmps = "children (files w) tdir"
  have own: "own = tdir @ [randomDirectoryName this]"
    by (simp add: own_def tdir_def)
  have mem: "randomDirectoryName this \<in> set ?tmps"
    using children_complete [of "files w" tdir "randomDirectoryName this"] assms(5)
    by (simp add: own)
  have h0: "\<forall>n \<in> set ?tmps. harmless (faults ?w0 OpRm (tdir @ [n]))"
    using assms(7) by simp
  from purge_entries_harmless [OF h0]
  have p: "fst (purge_entries tdir ?tmps ?w0) = Inr ()"
    "trace (snd (purge_entries tdir ?tmps ?w0)) =
       trace w @ Readdir tdir # map (\<lambda>n. Rm (tdir @ [n])) ?tmps"
    by simp_all
  have "r = outer_catch (purge_entries tdir ?tmps ?w0)"
    using deleteTutanotaTempDir_listed [of w env] assms(4,6) by (simp add: r_def tdir_def)
  then have eq: "r = (Inr (), snd (purge_entries tdir ?tmps ?w0))"
    using p(1) by (cases "purge_entries tdir ?tmps ?w0") (simp add: outer_catch_cases)
  have tr: "Rm own \<in> set (trace (snd r))"
    using mem by (simp add: eq p(2) own)
  have gone: "map_of (files (snd r)) q = None" if "prefix own q" for q
  proof -
    have "map_of (files ?w0) (tdir @ [randomDirectoryName this]) \<noteq> None"
      using assms(5) by (simp add: own)
    moreover have "faults ?w0 OpRm (tdir @ [randomDirectoryName this]) = None"
      using assms(8) by (simp add: own)
    moreover have "prefix (tdir @ [randomDirectoryName this]) q"
      using that by (simp add: own)
    ultimately show ?thesis
      using purge_entries_removes [OF mem h0] by (simp add: eq)
  qed
  from mem eq tr gone show ?thesis by simp
qed


text \<open>
  The theorem on the demo installation after it has staged a registry script in its
  scratch directory: the sweep removes the directory and the staged file.
\<close>

theorem deleteTutanotaTempDir_removes_own_scratch_dir_witness:
  "fst (getTutanotaTempPath demo_env \<lparr>randomDirectoryName = ''x''\<rparr> demo_world) =
     Inr [''tmp'', ''tutanota'', ''x'']
   \<and> fst (deleteTutanotaTempDir demo_env
            (snd (writeToDisk demo_env \<lparr>randomDirectoryName = ''x''\<rparr> ''register'' demo_world))) = Inr ()
   \<and> Rm [''tmp'', ''tutanota'', ''x''] \<in>
       set (trace (snd (deleteTutanotaTempDir demo_env
            (snd (writeToDisk demo_env \<lparr>randomDirectoryName = ''x''\<rparr> ''register'' demo_world)))))
   \<and> map_of (files (snd (deleteTutanotaTempDir demo_env
            (snd (writeToDisk demo_env \<lparr>randomDirectoryName = ''x''\<rparr> ''register'' demo_world)))))
       [''tmp'', ''tutanota'', ''x''] = None
   \<and> map_of (files (snd (deleteTutanotaTempDir demo_env
            (snd (writeToDisk demo_env \<lparr>randomDirectoryName = ''x''\<rparr> ''register'' demo_world)))))
       [''tmp'', ''tutanota'', ''x'', ''reg'', ''03203d5a7794b1ceeb082542''] = None"
proof -
  have td: "tempDir demo_env = [''tmp'']" by (simp add: demo_env_def)
  note inst = deleteTutanotaTempDir_removes_own_scratch_dir [OF demo_scratch_in_use]
  have p: "prefix [''tmp'', ''tutanota'', ''x''] [''tmp'', ''tutanota'', ''x'']"
    "prefix [''tmp'', ''tutanota'', ''x''] [''tmp'', ''tutanota'', ''x'', ''reg'', ''03203d5a7794b1ceeb082542'']"
    by simp_all
  show ?thesis
    using inst p demo_scratch_created by (simp add: td)
qed


end
